theory Spec2Isabelle
  imports Complex_Main "HOL-Library.Word" "HOL-Library.Sublist"
begin

section \<open>JavaScript strings and values\<close>

text \<open>
  A JavaScript string is a sequence of UTF-16 code units, and \<open>s.length\<close> counts code
  units. ASCII literals of the source are written through \<open>ascii\<close>; the Chinese text of
  the prompt template is given by its code units.
\<close>

type_synonym code_unit = "16 word"
type_synonym jsstring = "code_unit list"

definition ascii :: "string \<Rightarrow> jsstring" where
  "ascii s = map of_char s"

definition digit :: "nat \<Rightarrow> code_unit" where
  "digit d = of_nat (48 + d)"

text \<open>\<open>String(n)\<close> and \<open>`${n}`\<close> for a non-negative integer: its decimal digits.\<close>

fun decimal :: "nat \<Rightarrow> jsstring" where
  "decimal n = (if n < 10 then [digit n] else decimal (n div 10) @ [digit (n mod 10)])"

declare decimal.simps [simp del]

text \<open>\<open>Array.prototype.join\<close> and the index-passing \<open>Array.prototype.map\<close>.\<close>

fun join :: "jsstring \<Rightarrow> jsstring list \<Rightarrow> jsstring" where
  "join sep [] = []"
| "join sep [x] = x"
| "join sep (x # y # ys) = x @ sep @ join sep (y # ys)"

fun map_index :: "('a \<Rightarrow> nat \<Rightarrow> 'b) \<Rightarrow> nat \<Rightarrow> 'a list \<Rightarrow> 'b list" where
  "map_index f i [] = []"
| "map_index f i (x # xs) = f x i # map_index f (Suc i) xs"

text \<open>
  The values a dynamically typed field may hold. Numbers are the integer-valued ones;
  \<open>truthy\<close> is JavaScript's \<open>ToBoolean\<close> and \<open>js_or\<close> is \<open>||\<close>.
\<close>

datatype jsval = JUndefined | JNull | JBool bool | JNum int | JStr jsstring

fun truthy :: "jsval \<Rightarrow> bool" where
  "truthy JUndefined = False"
| "truthy JNull = False"
| "truthy (JBool b) = b"
| "truthy (JNum n) = (n \<noteq> 0)"
| "truthy (JStr s) = (s \<noteq> [])"

definition js_or :: "jsval \<Rightarrow> jsval \<Rightarrow> jsval" where
  "js_or a b = (if truthy a then a else b)"

type_synonym metadata = "(jsstring \<times> jsval) list"

text \<open>
  A value of type \<open>number\<close> where the code compares it: a finite value (every finite
  double is a rational), \<open>NaN\<close> or an infinity. \<open>js_greater\<close>, \<open>js_geq\<close> and
  \<open>js_equals\<close> are \<open>>\<close>, \<open>>=\<close> and \<open>==\<close> on numbers: every comparison with
  \<open>NaN\<close> is false.
\<close>

datatype js_number = Num rat | NaN | Infinity | MinusInfinity

fun js_greater :: "js_number \<Rightarrow> js_number \<Rightarrow> bool" where
  "js_greater NaN b = False"
| "js_greater a NaN = False"
| "js_greater (Num a) (Num b) = (a > b)"
| "js_greater (Num a) Infinity = False"
| "js_greater (Num a) MinusInfinity = True"
| "js_greater Infinity Infinity = False"
| "js_greater Infinity b = True"
| "js_greater MinusInfinity b = False"

fun js_geq :: "js_number \<Rightarrow> js_number \<Rightarrow> bool" where
  "js_geq NaN b = False"
| "js_geq a NaN = False"
| "js_geq (Num a) (Num b) = (a \<ge> b)"
| "js_geq (Num a) Infinity = False"
| "js_geq (Num a) MinusInfinity = True"
| "js_geq Infinity b = True"
| "js_geq MinusInfinity MinusInfinity = True"
| "js_geq MinusInfinity b = False"

fun js_equals :: "js_number \<Rightarrow> js_number \<Rightarrow> bool" where
  "js_equals NaN b = False"
| "js_equals a NaN = False"
| "js_equals a b = (a = b)"

section \<open>Prompt assembly\<close>

text \<open>The element type of \<open>retrievedDocs\<close>: \<open>{ content: string; metadata: Record<string, any> }\<close>.\<close>

record RetrievedDocument =
  doc_content :: jsstring
  doc_metadata :: metadata

text \<open>The three fixed pieces of the template literal, around \<open>${contextSections}\<close> and \<open>${query}\<close>.\<close>

definition template_header :: jsstring where
  "template_header =
    [0x57FA, 0x4E8E, 0x4EE5, 0x4E0B, 0x68C0, 0x7D22, 0x5230, 0x7684, 0x6587, 0x6863,
     0x5185, 0x5BB9, 0x56DE, 0x7B54, 0x7528, 0x6237, 0x7684, 0x95EE, 0x9898, 0x3002,
     0x5982, 0x679C, 0x6587, 0x6863, 0x4E2D, 0x6CA1, 0x6709, 0x76F8, 0x5173, 0x4FE1,
     0x606F, 0xFF0C, 0x8BF7, 0x5982, 0x5B9E, 0x8BF4, 0x660E, 0x3002, 0x000A, 0x000A,
     0x68C0, 0x7D22, 0x5230, 0x7684, 0x6587, 0x6863, 0x5185, 0x5BB9, 0xFF1A, 0x000A]"

definition template_question :: jsstring where
  "template_question = [0x000A, 0x000A, 0x7528, 0x6237, 0x95EE, 0x9898, 0xFF1A]"

definition template_suffix :: jsstring where
  "template_suffix =
    [0x000A, 0x000A, 0x8BF7, 0x57FA, 0x4E8E, 0x4E0A, 0x8FF0, 0x6587, 0x6863, 0x5185,
     0x5BB9, 0x56DE, 0x7B54, 0x95EE, 0x9898, 0xFF0C, 0x5E76, 0x5F15, 0x7528, 0x76F8,
     0x5173, 0x7684, 0x6587, 0x6863, 0x7F16, 0x53F7, 0x3002]"

text \<open>The callback of \<open>retrievedDocs.map\<close>: \<open>`[\<dots> ${index + 1}]\n${doc.content}`\<close>.\<close>

definition doc_section :: "RetrievedDocument \<Rightarrow> nat \<Rightarrow> jsstring" where
  "doc_section doc index =
     [0x005B, 0x6587, 0x6863, 0x0020] @ decimal (index + 1) @ [0x005D, 0x000A] @ doc_content doc"

definition contextSections :: "RetrievedDocument list \<Rightarrow> jsstring" where
  "contextSections retrievedDocs = join [0x000A, 0x000A] (map_index doc_section 0 retrievedDocs)"

text \<open>\<open>buildRAGPrompt\<close> of \<open>ragModel.ts\<close>: the query itself when nothing was retrieved.\<close>

definition buildRAGPrompt :: "jsstring \<Rightarrow> RetrievedDocument list \<Rightarrow> jsstring" where
  "buildRAGPrompt query retrievedDocs =
     (if length retrievedDocs = 0 then query
      else template_header @ contextSections retrievedDocs @ template_question @ query
             @ template_suffix)"

text \<open>\<open>buildPrompt\<close> of the retrieval chain: the same template, with no test on the length.\<close>

definition buildPrompt :: "jsstring \<Rightarrow> RetrievedDocument list \<Rightarrow> jsstring" where
  "buildPrompt query retrievedDocs =
     template_header @ contextSections retrievedDocs @ template_question @ query
       @ template_suffix"

section \<open>The RAG options and the decision rule\<close>

datatype EmbeddingModelType = openai | ollama

record RAGOptions =
  collectionName :: jsstring
  embeddingType :: EmbeddingModelType
  k :: int
  chromaHost :: jsstring
  chromaPort :: int
  embeddingModel :: "jsstring option"
  embeddingApiKey :: "jsstring option"
  embeddingBaseUrl :: "jsstring option"
  enableRAG :: bool
  ragThreshold :: js_number

definition shouldUseRAG :: "RAGOptions \<Rightarrow> jsstring \<Rightarrow> bool" where
  "shouldUseRAG ragOptions message =
     (if \<not> enableRAG ragOptions then False
      else if js_greater (ragThreshold ragOptions) (Num 0)
      then js_geq (Num (of_nat (length message))) (ragThreshold ragOptions)
      else True)"

text \<open>
  \<open>updateRAGOptions\<close>: every option that is not \<open>undefined\<close> is stored as it is (the
  API key and the base URL are not among them). The constructor writes
  \<open>options.ragThreshold || 0\<close>; this method does not.
\<close>

record RAGModelOptions =
  opt_collectionName :: "jsstring option"
  opt_embeddingType :: "EmbeddingModelType option"
  opt_k :: "int option"
  opt_chromaHost :: "jsstring option"
  opt_chromaPort :: "int option"
  opt_embeddingModel :: "jsstring option"
  opt_enableRAG :: "bool option"
  opt_ragThreshold :: "js_number option"

definition updateRAGOptions :: "RAGModelOptions \<Rightarrow> RAGOptions \<Rightarrow> RAGOptions" where
  "updateRAGOptions options ragOptions =
     ragOptions
       \<lparr>collectionName :=
          (case opt_collectionName options of None \<Rightarrow> collectionName ragOptions | Some v \<Rightarrow> v),
        k := (case opt_k options of None \<Rightarrow> k ragOptions | Some v \<Rightarrow> v),
        enableRAG := (case opt_enableRAG options of None \<Rightarrow> enableRAG ragOptions | Some v \<Rightarrow> v),
        ragThreshold :=
          (case opt_ragThreshold options of None \<Rightarrow> ragThreshold ragOptions | Some v \<Rightarrow> v),
        chromaHost := (case opt_chromaHost options of None \<Rightarrow> chromaHost ragOptions | Some v \<Rightarrow> v),
        chromaPort := (case opt_chromaPort options of None \<Rightarrow> chromaPort ragOptions | Some v \<Rightarrow> v),
        embeddingType :=
          (case opt_embeddingType options of None \<Rightarrow> embeddingType ragOptions | Some v \<Rightarrow> v),
        embeddingModel :=
          (case opt_embeddingModel options of None \<Rightarrow> embeddingModel ragOptions
           | Some v \<Rightarrow> Some v)\<rparr>"

section \<open>Thrown values and string conversion\<close>

text \<open>
  What a \<open>catch\<close> may receive: an \<open>Error\<close> object, with its \<open>name\<close> and
  \<open>message\<close>; a primitive value; or another object, of which the code uses two things:
  whether it has a \<open>constructor\<close> (an object made by \<open>Object.create(null)\<close> has
  none), and the text \<open>String\<close> gives for it, if it gives one (\<open>String\<close> throws on
  an object with neither \<open>toString\<close> nor \<open>valueOf\<close>).
\<close>

datatype js_thrown =
    ErrorObject jsstring jsstring
  | ThrownValue jsval
  | ThrownObject bool "jsstring option"

definition Number_toString :: "int \<Rightarrow> jsstring" where
  "Number_toString n = (if n < 0 then 0x002D # decimal (nat (- n)) else decimal (nat n))"

text \<open>\<open>String(v)\<close> on a primitive value.\<close>

fun ToString :: "jsval \<Rightarrow> jsstring" where
  "ToString JUndefined = ascii ''undefined''"
| "ToString JNull = ascii ''null''"
| "ToString (JBool b) = (if b then ascii ''true'' else ascii ''false'')"
| "ToString (JNum n) = Number_toString n"
| "ToString (JStr s) = s"

text \<open>
  \<open>String(error)\<close>: \<open>Error.prototype.toString\<close> on an error object; \<open>None\<close> when
  the conversion throws.
\<close>

fun String_error :: "js_thrown \<Rightarrow> jsstring option" where
  "String_error (ErrorObject name message) =
     Some (if name = [] then message else if message = [] then name
           else name @ ascii '': '' @ message)"
| "String_error (ThrownValue v) = Some (ToString v)"
| "String_error (ThrownObject has_constructor text) = text"

text \<open>
  \<open>error instanceof Error ? error.message : String(error)\<close>; \<open>None\<close> when the
  conversion throws.
\<close>

fun error_message_or_String :: "js_thrown \<Rightarrow> jsstring option" where
  "error_message_or_String (ErrorObject name message) = Some message"
| "error_message_or_String (ThrownValue v) = Some (ToString v)"
| "error_message_or_String (ThrownObject has_constructor text) = text"

text \<open>
  The \<open>TypeError\<close>s the engine throws inside the \<open>catch\<close> blocks and the controller
  (the messages are V8's and Node's): a property read on \<open>null\<close> or \<open>undefined\<close>, a
  conversion of an object that has no primitive value, an operation on a controller
  whose stream is closed.
\<close>

definition TypeError :: "jsstring \<Rightarrow> js_thrown" where
  "TypeError message = ErrorObject (ascii ''TypeError'') message"

definition cannot_read :: "string \<Rightarrow> string \<Rightarrow> js_thrown" where
  "cannot_read of_value property =
     TypeError (ascii ''Cannot read properties of '' @ ascii of_value @ ascii '' (reading ''
                @ [0x0027] @ ascii property @ [0x0027, 0x0029])"

definition cannot_convert :: js_thrown where
  "cannot_convert = TypeError (ascii ''Cannot convert object to primitive value'')"

definition controller_closed :: js_thrown where
  "controller_closed = TypeError (ascii ''Invalid state: Controller is already closed'')"

text \<open>
  The \<open>catch\<close> of \<open>searchSimilarDocuments\<close> reads \<open>error.message\<close> and
  \<open>error.stack\<close>: the first read throws on \<open>null\<close> and \<open>undefined\<close>.
\<close>

fun read_message :: "js_thrown \<Rightarrow> js_thrown option" where
  "read_message (ThrownValue JUndefined) = Some (cannot_read ''undefined'' ''message'')"
| "read_message (ThrownValue JNull) = Some (cannot_read ''null'' ''message'')"
| "read_message _ = None"

text \<open>
  The \<open>catch\<close> of \<open>enhanceMessageWithRAG\<close> reads \<open>error.message\<close>,
  \<open>error.stack\<close> and \<open>error.constructor.name\<close>: the last read throws on an object
  that has no \<open>constructor\<close>.
\<close>

fun read_message_and_constructor_name :: "js_thrown \<Rightarrow> js_thrown option" where
  "read_message_and_constructor_name (ThrownValue JUndefined) =
     Some (cannot_read ''undefined'' ''message'')"
| "read_message_and_constructor_name (ThrownValue JNull) =
     Some (cannot_read ''null'' ''message'')"
| "read_message_and_constructor_name (ThrownObject False text) =
     Some (cannot_read ''undefined'' ''name'')"
| "read_message_and_constructor_name _ = None"

section \<open>JSON.stringify\<close>

definition hex_digit :: "nat \<Rightarrow> code_unit" where
  "hex_digit d = (if d < 10 then of_nat (48 + d) else of_nat (87 + d))"

definition unicode_escape :: "code_unit \<Rightarrow> jsstring" where
  "unicode_escape c =
     [0x005C, 0x0075, hex_digit (unat c div 4096 mod 16), hex_digit (unat c div 256 mod 16),
      hex_digit (unat c div 16 mod 16), hex_digit (unat c mod 16)]"

definition is_high_surrogate :: "code_unit \<Rightarrow> bool" where
  "is_high_surrogate c = (0xD800 \<le> c \<and> c \<le> 0xDBFF)"

definition is_low_surrogate :: "code_unit \<Rightarrow> bool" where
  "is_low_surrogate c = (0xDC00 \<le> c \<and> c \<le> 0xDFFF)"

text \<open>
  The body of \<open>QuoteJSONString\<close>: the short escapes, \<open>\uXXXX\<close> for the other
  control characters and for lone surrogates, every other code point as it is.
\<close>

fun quote_units :: "jsstring \<Rightarrow> jsstring" where
  "quote_units [] = []"
| "quote_units (c # cs) =
     (if c = 0x0008 then [0x005C, 0x0062] @ quote_units cs
      else if c = 0x0009 then [0x005C, 0x0074] @ quote_units cs
      else if c = 0x000A then [0x005C, 0x006E] @ quote_units cs
      else if c = 0x000C then [0x005C, 0x0066] @ quote_units cs
      else if c = 0x000D then [0x005C, 0x0072] @ quote_units cs
      else if c = 0x0022 then [0x005C, 0x0022] @ quote_units cs
      else if c = 0x005C then [0x005C, 0x005C] @ quote_units cs
      else if c < 0x0020 then unicode_escape c @ quote_units cs
      else if is_high_surrogate c then
        (case cs of
           [] \<Rightarrow> unicode_escape c
         | d # ds \<Rightarrow>
             if is_low_surrogate d then c # d # quote_units ds
             else unicode_escape c @ quote_units cs)
      else if is_low_surrogate c then unicode_escape c @ quote_units cs
      else c # quote_units cs)"

definition QuoteJSONString :: "jsstring \<Rightarrow> jsstring" where
  "QuoteJSONString s = [0x0022] @ quote_units s @ [0x0022]"

text \<open>A property whose value is \<open>undefined\<close> is left out of the object (\<open>None\<close>).\<close>

fun JSON_value :: "jsval \<Rightarrow> jsstring option" where
  "JSON_value JUndefined = None"
| "JSON_value JNull = Some (ascii ''null'')"
| "JSON_value (JBool b) = Some (if b then ascii ''true'' else ascii ''false'')"
| "JSON_value (JNum n) = Some (Number_toString n)"
| "JSON_value (JStr s) = Some (QuoteJSONString s)"

section \<open>Chat messages and stream chunks\<close>

datatype role = user | assistant

record ChatMessage =
  role :: role
  content :: jsstring

datatype chunk_type = Content | Thinking | Error

text \<open>
  \<open>StreamChunk\<close>: \<open>{ type; content?; error? }\<close>. The \<open>content\<close> of a
  \<open>thinking\<close> chunk is whatever the fragment carried, so the field holds a value.
\<close>

record StreamChunk =
  type :: chunk_type
  chunk_content :: "jsval option"
  chunk_error :: "jsstring option"

definition type_name :: "chunk_type \<Rightarrow> jsstring" where
  "type_name t = (case t of Content \<Rightarrow> ascii ''content'' | Thinking \<Rightarrow> ascii ''thinking''
                  | Error \<Rightarrow> ascii ''error'')"

text \<open>\<open>JSON.stringify\<close> of a chunk object: its properties in the order written.\<close>

definition JSON_stringify :: "StreamChunk \<Rightarrow> jsstring" where
  \<open>JSON_stringify c =
     ascii ''{"type":'' @ QuoteJSONString (type_name (type c))
     @ (case chunk_content c of
          None \<Rightarrow> []
        | Some v \<Rightarrow> (case JSON_value v of None \<Rightarrow> [] | Some j \<Rightarrow> ascii '',"content":'' @ j))
     @ (case chunk_error c of
          None \<Rightarrow> []
        | Some e \<Rightarrow> ascii '',"error":'' @ QuoteJSONString e)
     @ ascii ''}''\<close>

text \<open>The text handed to \<open>encoder.encode\<close> at each \<open>controller.enqueue\<close>.\<close>

definition sse :: "jsstring \<Rightarrow> jsstring" where
  "sse payload = ascii ''data: '' @ payload @ [0x000A, 0x000A]"

definition data_frame :: "StreamChunk \<Rightarrow> jsstring" where
  "data_frame c = sse (JSON_stringify c)"

definition DONE_frame :: jsstring where
  "DONE_frame = sse (ascii ''[DONE]'')"

text \<open>
  The stream and its controller: the frames enqueued so far, whether
  \<open>controller.close()\<close> has been called, the error \<open>start\<close> rejected with, and the
  consumer, who either reads to the end (\<open>None\<close>) or cancels once a number of frames
  has been enqueued. After a cancel, and after a close, \<open>enqueue\<close> and \<open>close\<close>
  throw. A consumer can cancel only while \<open>start\<close> awaits; the model lets it cancel
  after any number of frames, which covers every such moment.
\<close>

record controller =
  enqueued :: "jsstring list"
  closed :: bool
  rejected :: "js_thrown option"
  cancel_after :: "nat option"

definition new_controller :: "nat option \<Rightarrow> controller" where
  "new_controller consumer =
     \<lparr>enqueued = [], closed = False, rejected = None, cancel_after = consumer\<rparr>"

definition cancelled :: "controller \<Rightarrow> bool" where
  "cancelled c = (case cancel_after c of None \<Rightarrow> False | Some n \<Rightarrow> n \<le> length (enqueued c))"

definition enqueue :: "jsstring \<Rightarrow> controller \<Rightarrow> js_thrown + controller" where
  "enqueue frame c =
     (if closed c \<or> cancelled c then Inl controller_closed
      else Inr (c\<lparr>enqueued := enqueued c @ [frame]\<rparr>))"

definition close :: "controller \<Rightarrow> js_thrown + controller" where
  "close c =
     (if closed c \<or> cancelled c then Inl controller_closed
      else Inr (c\<lparr>closed := True\<rparr>))"

section \<open>The chat model client\<close>

record tool_call =
  call_name :: jsstring
  call_args :: "metadata option"
  call_id :: jsval

record tool_message =
  tool_content :: jsstring
  tool_call_id :: jsval

record AIResponse =
  response_content :: jsval
  tool_calls :: "tool_call list option"

datatype BaseMessage =
    SystemMessage jsstring
  | HumanMessage jsstring
  | AIMessage jsstring
  | ResponseMessage AIResponse
  | ToolMessage tool_message

text \<open>
  One fragment of the model's stream, with the two fields the code probes on it. A
  \<open>content\<close> that is not a string is any value other than \<open>JStr\<close>.
\<close>

record fragment =
  fragment_content :: jsval
  reasoning_content :: jsval
  thinking :: jsval

text \<open>
  What \<open>model.stream\<close> gives: the fragments it yields, then either the end of the
  stream or a throw. A rejected \<open>await model.stream(\<dots>)\<close> is no fragment and a throw.
\<close>

record stream_outcome =
  fragments :: "fragment list"
  failure :: "js_thrown option"

text \<open>
  A tool reads the world (the clock, a remote service) and may throw. The model and the
  registry are the fields of the class the methods use.
\<close>

type_synonym 'w tool = "metadata \<Rightarrow> 'w \<Rightarrow> (js_thrown + jsval) \<times> 'w"

record 'w OllamaModel =
  invoke :: "BaseMessage list \<Rightarrow> js_thrown + AIResponse"
  stream :: "BaseMessage list \<Rightarrow> stream_outcome"
  toolMap :: "jsstring \<Rightarrow> 'w tool option"
  systemPrompt :: jsstring

text \<open>
  The constructor's \<open>tools.forEach(tool => toolMap.set(tool.name, tool))\<close>, and the
  registry of \<open>tools/index.ts\<close>, whose two tools read the clock. The properties below
  hold for any registry.
\<close>

definition build_toolMap :: "(jsstring \<times> 'w tool) list \<Rightarrow> jsstring \<Rightarrow> 'w tool option" where
  "build_toolMap tools = fold (\<lambda>(name, tool) m. m(name \<mapsto> tool)) tools Map.empty"

definition getTools :: "'w tool \<Rightarrow> 'w tool \<Rightarrow> (jsstring \<times> 'w tool) list" where
  "getTools getCurrentTimeTool getCurrentTimestampTool =
     [(ascii ''get_current_time'', getCurrentTimeTool),
      (ascii ''get_current_timestamp'', getCurrentTimestampTool)]"

fun convert_message :: "ChatMessage \<Rightarrow> BaseMessage list" where
  "convert_message msg =
     (if role msg = user then [HumanMessage (content msg)]
      else if role msg = assistant then [AIMessage (content msg)]
      else [])"

definition convertToLangChainMessages :: "'w OllamaModel \<Rightarrow> ChatMessage list \<Rightarrow> BaseMessage list" where
  "convertToLangChainMessages m messages =
     SystemMessage (systemPrompt m) # concat (map convert_message messages)"

subsection \<open>streamChat\<close>

definition content_chunk :: "jsstring \<Rightarrow> StreamChunk" where
  "content_chunk s = \<lparr>type = Content, chunk_content = Some (JStr s), chunk_error = None\<rparr>"

definition thinking_chunk :: "jsval \<Rightarrow> StreamChunk" where
  "thinking_chunk v = \<lparr>type = Thinking, chunk_content = Some v, chunk_error = None\<rparr>"

definition error_chunk :: "jsstring \<Rightarrow> StreamChunk" where
  "error_chunk e = \<lparr>type = Error, chunk_content = None, chunk_error = Some e\<rparr>"

text \<open>The body of the \<open>for await\<close> loop: the calls of \<open>onChunk\<close> for one fragment.\<close>

definition streamChat_body :: "fragment \<Rightarrow> StreamChunk list" where
  "streamChat_body chunk =
     (case fragment_content chunk of
        JStr s \<Rightarrow>
          if s \<noteq> [] then
            content_chunk s #
              (if truthy (js_or (reasoning_content chunk) (thinking chunk)) then
                 (let thinkingContent = js_or (reasoning_content chunk) (thinking chunk)
                  in if truthy thinkingContent then [thinking_chunk thinkingContent] else [])
               else [])
          else []
      | _ \<Rightarrow> [])"

fun streamChat_loop :: "fragment list \<Rightarrow> StreamChunk list" where
  "streamChat_loop [] = []"
| "streamChat_loop (chunk # rest) = streamChat_body chunk @ streamChat_loop rest"

text \<open>
  \<open>streamChat\<close>: the sequence of chunks passed to \<open>onChunk\<close>. When the conversion
  of the caught value throws, no error chunk is passed (and the promise rejects).
\<close>

definition streamChat :: "'w OllamaModel \<Rightarrow> ChatMessage list \<Rightarrow> StreamChunk list" where
  "streamChat m messages =
     (let langchainMessages = convertToLangChainMessages m messages;
          s = stream m langchainMessages
      in streamChat_loop (fragments s) @
         (case failure s of
            None \<Rightarrow> []
          | Some error \<Rightarrow>
              (case error_message_or_String error of
                 None \<Rightarrow> []
               | Some text \<Rightarrow> [error_chunk text])))"

subsection \<open>executeToolCalls\<close>

text \<open>
  The private method and the helper inside \<open>createStreamingResponse\<close> are the same
  loop: a name the registry does not know is skipped, a throwing tool gives an
  \<open>Error: \<dots>\<close> message. When the conversion of the caught value throws, the throw
  leaves the loop.
\<close>

fun executeToolCalls ::
  "(jsstring \<Rightarrow> 'w tool option) \<Rightarrow> tool_call list \<Rightarrow> 'w
     \<Rightarrow> (js_thrown + tool_message list) \<times> 'w" where
  "executeToolCalls tm [] w = (Inr [], w)"
| "executeToolCalls tm (toolCall # rest) w =
     (case tm (call_name toolCall) of
        None \<Rightarrow> executeToolCalls tm rest w
      | Some tool \<Rightarrow>
          (case tool (case call_args toolCall of None \<Rightarrow> [] | Some a \<Rightarrow> a) w of
             (Inr result, w') \<Rightarrow>
               (case executeToolCalls tm rest w' of
                  (Inl thrown, w'') \<Rightarrow> (Inl thrown, w'')
                | (Inr toolMessages, w'') \<Rightarrow>
                    (Inr (\<lparr>tool_content = ToString result, tool_call_id = call_id toolCall\<rparr>
                            # toolMessages), w''))
           | (Inl error, w') \<Rightarrow>
               (case error_message_or_String error of
                  None \<Rightarrow> (Inl cannot_convert, w')
                | Some text \<Rightarrow>
                    (case executeToolCalls tm rest w' of
                       (Inl thrown, w'') \<Rightarrow> (Inl thrown, w'')
                     | (Inr toolMessages, w'') \<Rightarrow>
                         (Inr (\<lparr>tool_content = ascii ''Error: '' @ text,
                                 tool_call_id = call_id toolCall\<rparr> # toolMessages), w'')))))"

subsection \<open>createStreamingResponse\<close>

text \<open>
  The loop of the pass after the tools, and the loop of the pass without tools. Each
  gives the controller it leaves and the value thrown by an \<open>enqueue\<close>, if one threw.
\<close>

fun forward_content :: "fragment list \<Rightarrow> controller \<Rightarrow> controller \<times> js_thrown option" where
  "forward_content [] c = (c, None)"
| "forward_content (chunk # rest) c =
     (case fragment_content chunk of
        JStr s \<Rightarrow>
          if s \<noteq> [] then
            (case enqueue (data_frame (content_chunk s)) c of
               Inl thrown \<Rightarrow> (c, Some thrown)
             | Inr c1 \<Rightarrow> forward_content rest c1)
          else forward_content rest c
      | _ \<Rightarrow> forward_content rest c)"

definition forward_body :: "fragment \<Rightarrow> controller \<Rightarrow> controller \<times> js_thrown option" where
  "forward_body chunk c =
     (case fragment_content chunk of
        JStr s \<Rightarrow>
          if s \<noteq> [] then
            (case enqueue (data_frame (content_chunk s)) c of
               Inl thrown \<Rightarrow> (c, Some thrown)
             | Inr c1 \<Rightarrow>
                 if truthy (js_or (reasoning_content chunk) (thinking chunk)) then
                   (let thinkingContent = js_or (reasoning_content chunk) (thinking chunk)
                    in if truthy thinkingContent then
                         (case enqueue (data_frame (thinking_chunk thinkingContent)) c1 of
                            Inl thrown \<Rightarrow> (c1, Some thrown)
                          | Inr c2 \<Rightarrow> (c2, None))
                       else (c1, None))
                 else (c1, None))
          else (c, None)
      | _ \<Rightarrow> (c, None))"

fun forward_content_thinking ::
  "fragment list \<Rightarrow> controller \<Rightarrow> controller \<times> js_thrown option" where
  "forward_content_thinking [] c = (c, None)"
| "forward_content_thinking (chunk # rest) c =
     (case forward_body chunk c of
        (c1, Some thrown) \<Rightarrow> (c1, Some thrown)
      | (c1, None) \<Rightarrow> forward_content_thinking rest c1)"

definition has_tool_calls :: "AIResponse \<Rightarrow> bool" where
  "has_tool_calls response =
     (case tool_calls response of None \<Rightarrow> False | Some calls \<Rightarrow> length calls > 0)"

definition requested_calls :: "AIResponse \<Rightarrow> tool_call list" where
  "requested_calls response = (case tool_calls response of None \<Rightarrow> [] | Some calls \<Rightarrow> calls)"

text \<open>
  The two statements that follow both passes, the sentinel and the close, and the
  \<open>catch\<close> block, in which \<open>String(error)\<close>, the \<open>enqueue\<close> and the \<open>close\<close>
  may throw in turn: \<open>start\<close> then rejects.
\<close>

definition enqueue_DONE_and_close :: "controller \<Rightarrow> controller \<times> js_thrown option" where
  "enqueue_DONE_and_close c =
     (case enqueue DONE_frame c of
        Inl thrown \<Rightarrow> (c, Some thrown)
      | Inr c1 \<Rightarrow>
          (case close c1 of
             Inl thrown \<Rightarrow> (c1, Some thrown)
           | Inr c2 \<Rightarrow> (c2, None)))"

definition start_catch :: "js_thrown \<Rightarrow> controller \<Rightarrow> controller" where
  "start_catch error c =
     (case String_error error of
        None \<Rightarrow> c\<lparr>rejected := Some cannot_convert\<rparr>
      | Some text \<Rightarrow>
          (case enqueue (data_frame (error_chunk text)) c of
             Inl thrown \<Rightarrow> c\<lparr>rejected := Some thrown\<rparr>
           | Inr c1 \<Rightarrow>
               (case close c1 of
                  Inl thrown \<Rightarrow> c1\<lparr>rejected := Some thrown\<rparr>
                | Inr c2 \<Rightarrow> c2)))"

text \<open>
  The \<open>try\<close> block of \<open>start\<close>: the controller it leaves, and the value thrown if it
  threw. A stream that fails throws once its fragments are consumed.
\<close>

definition start_try ::
  "'w OllamaModel \<Rightarrow> ChatMessage list \<Rightarrow> 'w \<Rightarrow> controller \<Rightarrow> controller \<times> js_thrown option" where
  "start_try m messages w c =
     (let langchainMessages = convertToLangChainMessages m messages in
      case invoke m langchainMessages of
        Inl error \<Rightarrow> (c, Some error)
      | Inr response \<Rightarrow>
          (case
             (if has_tool_calls response then
                (case executeToolCalls (toolMap m) (requested_calls response) w of
                   (Inl error, w') \<Rightarrow> (c, Some error)
                 | (Inr toolMessages, w') \<Rightarrow>
                     (let langchainMessages' =
                            langchainMessages @ [ResponseMessage response]
                              @ map ToolMessage toolMessages;
                          finalStream = stream m langchainMessages'
                      in case forward_content (fragments finalStream) c of
                           (c1, Some thrown) \<Rightarrow> (c1, Some thrown)
                         | (c1, None) \<Rightarrow> (c1, failure finalStream)))
              else
                (let s = stream m langchainMessages
                 in case forward_content_thinking (fragments s) c of
                      (c1, Some thrown) \<Rightarrow> (c1, Some thrown)
                    | (c1, None) \<Rightarrow> (c1, failure s)))
           of
             (c1, Some thrown) \<Rightarrow> (c1, Some thrown)
           | (c1, None) \<Rightarrow> enqueue_DONE_and_close c1))"

text \<open>
  \<open>createStreamingResponse\<close> for a given consumer: the state of the stream once
  \<open>start\<close> has settled.
\<close>

definition createStreamingResponse ::
  "nat option \<Rightarrow> 'w OllamaModel \<Rightarrow> ChatMessage list \<Rightarrow> 'w \<Rightarrow> controller" where
  "createStreamingResponse consumer m messages w =
     (case start_try m messages w (new_controller consumer) of
        (c, None) \<Rightarrow> c
      | (c, Some error) \<Rightarrow> start_catch error c)"

section \<open>The vector store\<close>

record Document =
  pageContent :: jsstring
  metadata :: metadata

text \<open>
  What \<open>collection.query\<close> answers. A document or a metadata entry may be \<open>null\<close>,
  and the two arrays may be absent.
\<close>

record QueryResult =
  ids :: "jsstring list list"
  documents :: "jsstring option list list option"
  metadatas :: "metadata option list list option"

record SearchOptions =
  host :: jsstring
  port :: int
  apiKey :: "jsstring option"
  model :: "jsstring option"
  baseUrl :: "jsstring option"

text \<open>
  The awaited calls of \<open>searchSimilarDocuments\<close> (the embedding of the query, the
  collection, its query), taken together: they throw or give a result.
\<close>

type_synonym backend =
  "jsstring \<Rightarrow> int \<Rightarrow> jsstring \<Rightarrow> EmbeddingModelType \<Rightarrow> SearchOptions \<Rightarrow> js_thrown + QueryResult"

fun nth_opt :: "'a list \<Rightarrow> nat \<Rightarrow> 'a option" where
  "nth_opt [] i = None"
| "nth_opt (x # xs) 0 = Some x"
| "nth_opt (x # xs) (Suc i) = nth_opt xs i"

text \<open>\<open>results.documents?.[0] || []\<close>, and the same for the metadata.\<close>

definition first_or_empty :: "'a list list option \<Rightarrow> 'a list" where
  "first_or_empty r = (case r of None \<Rightarrow> [] | Some [] \<Rightarrow> [] | Some (x # _) \<Rightarrow> x)"

definition convert_results :: "QueryResult \<Rightarrow> Document list" where
  "convert_results results =
     (case ids results of
        [] \<Rightarrow> []
      | ids0 # _ \<Rightarrow>
          (let docs = first_or_empty (documents results);
               mds = first_or_empty (metadatas results)
           in map (\<lambda>i. \<lparr>pageContent = (case nth_opt docs i of Some (Some d) \<Rightarrow> d | _ \<Rightarrow> []),
                         metadata = (case nth_opt mds i of Some (Some md) \<Rightarrow> md | _ \<Rightarrow> [])\<rparr>)
                [0..<length ids0]))"

text \<open>
  \<open>searchSimilarDocuments\<close>: the whole body is in a \<open>try\<close>; the \<open>catch\<close> logs
  \<open>error.message\<close> and throws the error again.
\<close>

definition searchSimilarDocuments ::
  "backend \<Rightarrow> jsstring \<Rightarrow> int \<Rightarrow> jsstring \<Rightarrow> EmbeddingModelType \<Rightarrow> SearchOptions
     \<Rightarrow> js_thrown + Document list" where
  "searchSimilarDocuments b query k' collection etype options =
     (case b query k' collection etype options of
        Inr results \<Rightarrow> Inr (convert_results results)
      | Inl error \<Rightarrow>
          (case read_message error of Some thrown \<Rightarrow> Inl thrown | None \<Rightarrow> Inl error))"





section \<open>The RAG-augmented model\<close>

text \<open>
  \<open>enhanceMessageWithRAG\<close>. The \<open>catch\<close> reads \<open>error.message\<close>, \<open>error.stack\<close>
  and \<open>error.constructor.name\<close> before it returns the message, so it throws in turn
  when one of the reads throws. The array returned by
  \<open>searchSimilarDocuments\<close> always passes \<open>Array.isArray\<close>, and its elements are
  objects, so the filter keeps the documents with a non-empty \<open>pageContent\<close>.
\<close>

definition search_options :: "RAGOptions \<Rightarrow> SearchOptions" where
  "search_options ragOptions =
     \<lparr>host = chromaHost ragOptions, port = chromaPort ragOptions,
      apiKey = embeddingApiKey ragOptions, model = embeddingModel ragOptions,
      baseUrl = embeddingBaseUrl ragOptions\<rparr>"

definition enhanceMessageWithRAG :: "backend \<Rightarrow> RAGOptions \<Rightarrow> jsstring \<Rightarrow> js_thrown + jsstring" where
  "enhanceMessageWithRAG b ragOptions message =
     (case searchSimilarDocuments b message (k ragOptions) (collectionName ragOptions)
             (embeddingType ragOptions) (search_options ragOptions) of
        Inr retrievedDocs \<Rightarrow>
          (let retrievedDocuments =
                 map (\<lambda>doc. \<lparr>doc_content = pageContent doc, doc_metadata = metadata doc\<rparr>)
                   (filter (\<lambda>doc. pageContent doc \<noteq> []) retrievedDocs)
           in Inr (buildRAGPrompt message retrievedDocuments))
      | Inl error \<Rightarrow>
          (case read_message_and_constructor_name error of
             Some thrown \<Rightarrow> Inl thrown
           | None \<Rightarrow> Inr message))"

text \<open>
  The two overriding methods. \<open>parent\<close> is the method of the superclass that
  \<open>super.streamChat\<close> and \<open>super.createStreamingResponse\<close> call; the result is
  what the parent returns on the history it is given, or the error the method rejects
  with.
\<close>

definition lastMessage :: "ChatMessage list \<Rightarrow> ChatMessage option" where
  "lastMessage messages = (if messages = [] then None else Some (last messages))"

definition RAGModel_streamChat ::
  "(ChatMessage list \<Rightarrow> 'r) \<Rightarrow> backend \<Rightarrow> RAGOptions \<Rightarrow> ChatMessage list \<Rightarrow> js_thrown + 'r" where
  "RAGModel_streamChat parent b ragOptions messages =
     (case lastMessage messages of
        None \<Rightarrow> Inr (parent messages)
      | Some lm \<Rightarrow>
          if role lm = user \<and> shouldUseRAG ragOptions (content lm) then
            (case enhanceMessageWithRAG b ragOptions (content lm) of
               Inl error \<Rightarrow> Inl error
             | Inr enhancedContent \<Rightarrow>
                 Inr (parent (butlast messages @ [\<lparr>role = user, content = enhancedContent\<rparr>])))
          else Inr (parent messages))"

definition RAGModel_createStreamingResponse ::
  "(ChatMessage list \<Rightarrow> 'r) \<Rightarrow> backend \<Rightarrow> RAGOptions \<Rightarrow> ChatMessage list \<Rightarrow> js_thrown + 'r" where
  "RAGModel_createStreamingResponse parent b ragOptions messages =
     (case lastMessage messages of
        None \<Rightarrow> Inr (parent messages)
      | Some lm \<Rightarrow>
          if role lm = user \<and> shouldUseRAG ragOptions (content lm) then
            (case enhanceMessageWithRAG b ragOptions (content lm) of
               Inl error \<Rightarrow> Inl error
             | Inr enhancedContent \<Rightarrow>
                 Inr (parent (butlast messages @ [\<lparr>role = user, content = enhancedContent\<rparr>])))
          else Inr (parent messages))"

section \<open>Notions used in the statements\<close>

text \<open>
  The document part of the prompt as the specification words it: each document under
  its label \<open>[\<dots> N]\<close>, counted from \<open>n\<close>, a blank line between two documents.
\<close>

definition doc_label :: "nat \<Rightarrow> jsstring" where
  "doc_label n = [0x005B, 0x6587, 0x6863, 0x0020] @ decimal n @ [0x005D]"

fun labelled_documents :: "nat \<Rightarrow> RetrievedDocument list \<Rightarrow> jsstring" where
  "labelled_documents n [] = []"
| "labelled_documents n [d] = doc_label n @ [0x000A] @ doc_content d"
| "labelled_documents n (d # d' # ds) =
     doc_label n @ [0x000A] @ doc_content d @ [0x000A, 0x000A]
       @ labelled_documents (Suc n) (d' # ds)"

text \<open>
  What the code sets out to enqueue after the chunks of a pass: the sentinel when
  nothing was thrown, the error chunk of the \<open>catch\<close> when something was, nothing when
  \<open>String\<close> cannot convert what was thrown.
\<close>

definition closing_frames :: "js_thrown option \<Rightarrow> jsstring list" where
  "closing_frames thrown =
     (case thrown of
        None \<Rightarrow> [DONE_frame]
      | Some error \<Rightarrow>
          (case String_error error of
             None \<Rightarrow> []
           | Some text \<Rightarrow> [data_frame (error_chunk text)]))"

text \<open>
  What reaches a consumer of the frames the code sets out to enqueue: all of them when
  the consumer reads to the end, the first \<open>n\<close> when it cancels after \<open>n\<close> frames.
  \<open>reads_on consumer n\<close>: the consumer has not cancelled once \<open>n\<close> frames are enqueued.
\<close>

definition take_frames :: "nat option \<Rightarrow> jsstring list \<Rightarrow> jsstring list" where
  "take_frames consumer frames = (case consumer of None \<Rightarrow> frames | Some n \<Rightarrow> take n frames)"

definition reads_on :: "nat option \<Rightarrow> nat \<Rightarrow> bool" where
  "reads_on consumer n = (case consumer of None \<Rightarrow> True | Some limit \<Rightarrow> n < limit)"

text \<open>Enqueueing a list of frames in turn, up to the first \<open>enqueue\<close> that throws.\<close>

fun enqueue_all :: "jsstring list \<Rightarrow> controller \<Rightarrow> controller \<times> js_thrown option" where
  "enqueue_all [] c = (c, None)"
| "enqueue_all (frame # frames) c =
     (case enqueue frame c of
        Inl thrown \<Rightarrow> (c, Some thrown)
      | Inr c1 \<Rightarrow> enqueue_all frames c1)"

text \<open>
  The state in which \<open>start\<close> leaves the stream of a consumer, when the code sets out
  to enqueue the given frames and the pass then throws the given value, or nothing: what
  the consumer got, whether the code closed the stream, and what \<open>start\<close> rejected
  with.
\<close>

definition settled :: "nat option \<Rightarrow> jsstring list \<Rightarrow> js_thrown option \<Rightarrow> controller" where
  "settled consumer frames thrown =
     \<lparr>enqueued = take_frames consumer (frames @ closing_frames thrown),
      closed = (closing_frames thrown \<noteq> [] \<and> reads_on consumer (length frames + 1)),
      rejected =
        (if closing_frames thrown = [] \<and> (frames = [] \<or> reads_on consumer (length frames - 1))
         then Some cannot_convert
         else if closing_frames thrown \<noteq> [] \<and> reads_on consumer (length frames + 1) then None
         else Some controller_closed),
      cancel_after = consumer\<rparr>"

text \<open>A frame, read as text, is a data frame whose JSON object opens with the given \<open>type\<close>.\<close>

definition frame_has_type :: "chunk_type \<Rightarrow> jsstring \<Rightarrow> bool" where
  \<open>frame_has_type t frame = prefix (ascii ''data: {"type":'' @ QuoteJSONString (type_name t)) frame\<close>

text \<open>
  A frame is one \<open>data:\<close> line and the blank line after it: the two line feeds at its
  end are its only ones.
\<close>

definition well_framed :: "jsstring \<Rightarrow> bool" where
  "well_framed frame =
     (prefix (ascii ''data: '') frame \<and> suffix [0x000A, 0x000A] frame
      \<and> length (filter (\<lambda>u. u = 0x000A) frame) = 2)"

text \<open>
  The history of the second invocation: the converted messages, the response that asked
  for the tools, the tool results.
\<close>

definition second_history ::
  "'w OllamaModel \<Rightarrow> ChatMessage list \<Rightarrow> AIResponse \<Rightarrow> tool_message list \<Rightarrow> BaseMessage list" where
  "second_history m messages response toolMessages =
     convertToLangChainMessages m messages @ [ResponseMessage response]
       @ map ToolMessage toolMessages"

text \<open>
  A sequence of chunks in which every \<open>thinking\<close> chunk stands right after a
  \<open>content\<close> chunk; \<open>prev\<close> is the type of the chunk before the sequence.
\<close>

fun placed :: "chunk_type option \<Rightarrow> StreamChunk list \<Rightarrow> bool" where
  "placed prev [] = True"
| "placed prev (c # cs) = ((type c \<noteq> Thinking \<or> prev = Some Content) \<and> placed (Some (type c)) cs)"


section \<open>A concrete model, for the concrete runs\<close>

text \<open>
  A model whose stream yields a fragment with empty content and a reasoning field, then
  the fragment \<open>ok\<close> with the reasoning \<open>why\<close>; a registry whose timestamp tool
  throws an \<open>Error\<close>, and one whose timestamp tool throws an object made by
  \<open>Object.create(null)\<close>, which has no \<open>constructor\<close> and no \<open>toString\<close>.
\<close>

definition bare_object :: js_thrown where
  "bare_object = ThrownObject False None"

definition example_fragment :: fragment where
  "example_fragment =
     \<lparr>fragment_content = JStr (ascii ''ok''), reasoning_content = JStr (ascii ''why''),
      thinking = JUndefined\<rparr>"

definition example_silent_fragment :: fragment where
  "example_silent_fragment =
     \<lparr>fragment_content = JStr [], reasoning_content = JStr (ascii ''why''),
      thinking = JUndefined\<rparr>"

definition example_time_tool :: "nat tool" where
  "example_time_tool args w = (Inr (JStr (ascii ''12:00'')), w)"

definition example_failing_tool :: "nat tool" where
  "example_failing_tool args w = (Inl (ErrorObject (ascii ''Error'') (ascii ''boom'')), w)"


definition example_call :: "string \<Rightarrow> string \<Rightarrow> tool_call" where
  "example_call name i =
     \<lparr>call_name = ascii name, call_args = None, call_id = JStr (ascii i)\<rparr>"

definition example_calls :: "tool_call list" where
  "example_calls =
     [example_call ''get_current_time'' ''a'', example_call ''get_current_timestamp'' ''b'']"

definition example_response :: "tool_call list \<Rightarrow> AIResponse" where
  "example_response calls = \<lparr>response_content = JStr [], tool_calls = Some calls\<rparr>"

definition example_model :: "tool_call list \<Rightarrow> js_thrown option \<Rightarrow> nat OllamaModel" where
  "example_model calls thrown =
     \<lparr>invoke = (\<lambda>h. Inr (example_response calls)),
      stream = (\<lambda>h. \<lparr>fragments = [example_silent_fragment, example_fragment], failure = thrown\<rparr>),
      toolMap = build_toolMap (getTools example_time_tool example_failing_tool),
      systemPrompt = ascii ''sys''\<rparr>"



definition example_options :: RAGOptions where
  "example_options =
     \<lparr>collectionName = ascii ''rag-documents'', embeddingType = ollama, k = 4,
      chromaHost = ascii ''localhost'', chromaPort = 8000, embeddingModel = None,
      embeddingApiKey = None, embeddingBaseUrl = None, enableRAG = True, ragThreshold = Num 0\<rparr>"

definition NaN_update :: RAGModelOptions where
  "NaN_update =
     \<lparr>opt_collectionName = None, opt_embeddingType = None, opt_k = None, opt_chromaHost = None,
      opt_chromaPort = None, opt_embeddingModel = None, opt_enableRAG = None,
      opt_ragThreshold = Some NaN\<rparr>"



definition example_backend :: backend where
  "example_backend query n collection etype options =
     Inr \<lparr>ids = [[ascii ''id1'', ascii ''id2'']],
          documents = Some [[Some (ascii ''x''), None]], metadatas = None\<rparr>"

definition example_history :: "ChatMessage list" where
  "example_history =
     [\<lparr>role = assistant, content = ascii ''hello''\<rparr>, \<lparr>role = user, content = ascii ''hi''\<rparr>]"

section \<open>Properties\<close>

subsection \<open>Decimal numerals and quoted strings\<close>

lemma unat_digit: "d < 10 \<Longrightarrow> unat (digit d) = 48 + d"
  unfolding digit_def by (rule of_nat_inverse [OF refl]) simp





lemma digit_not_newline: "d < 10 \<Longrightarrow> digit d \<noteq> 0x000A"
proof
  assume "d < 10" "digit d = 0x000A"
  then have "unat (digit d) = 10" by simp
  with \<open>d < 10\<close> show False by (simp add: unat_digit)
qed

lemma newline_not_in_decimal: "0x000A \<notin> set (decimal n)"
proof (induction n rule: decimal.induct)
  case (1 n)
  show ?case
  proof (cases "n < 10")
    case True
    then show ?thesis
      using digit_not_newline [of n] by (subst decimal.simps) auto
  next
    case False
    with 1 have "0x000A \<notin> set (decimal (n div 10))" by simp
    moreover have "digit (n mod 10) \<noteq> 0x000A" by (rule digit_not_newline) simp
    ultimately show ?thesis using False
      by (subst decimal.simps) auto
  qed
qed

lemma unat_hex_digit: "d < 16 \<Longrightarrow> unat (hex_digit d) = (if d < 10 then 48 + d else 87 + d)"
proof (cases "d < 10")
  case True
  then have "unat (of_nat (48 + d) :: code_unit) = 48 + d"
    by (intro of_nat_inverse [OF refl]) simp
  with True show ?thesis by (simp only: hex_digit_def if_True)
next
  case False
  assume "d < 16"
  then have "unat (of_nat (87 + d) :: code_unit) = 87 + d"
    by (intro of_nat_inverse [OF refl]) simp
  with False show ?thesis by (simp only: hex_digit_def if_False)
qed

lemma hex_digit_not_newline: "d < 16 \<Longrightarrow> hex_digit d \<noteq> 0x000A"
proof
  assume "d < 16" "hex_digit d = 0x000A"
  then have "unat (hex_digit d) = 10" by simp
  with \<open>d < 16\<close> show False by (simp add: unat_hex_digit split: if_splits)
qed

lemma newline_not_in_unicode_escape: "0x000A \<notin> set (unicode_escape c)"
  by (simp add: unicode_escape_def hex_digit_not_newline [symmetric])

lemma surrogate_not_newline:
  "is_high_surrogate c \<Longrightarrow> c \<noteq> 0x000A" "is_low_surrogate c \<Longrightarrow> c \<noteq> 0x000A"
  by (auto simp: is_high_surrogate_def is_low_surrogate_def)

lemma newline_not_in_quote_units: "0x000A \<notin> set (quote_units s)"
proof (induction "length s" arbitrary: s rule: less_induct)
  case less
  show ?case
  proof (cases s)
    case Nil
    then show ?thesis by simp
  next
    case (Cons c cs)
    have tail: "0x000A \<notin> set (quote_units cs)"
      using less [of cs] Cons by simp
    have esc: "0x000A \<notin> set (unicode_escape c)"
      by (rule newline_not_in_unicode_escape)
    have pair: "0x000A \<notin> set (case cs of [] \<Rightarrow> unicode_escape c
        | d # ds \<Rightarrow> if is_low_surrogate d then c # d # quote_units ds
                   else unicode_escape c @ quote_units cs)"
      if "c \<noteq> 0x000A"
    proof (cases cs)
      case Nil
      with esc show ?thesis by simp
    next
      case inner: (Cons d ds)
      have "0x000A \<notin> set (quote_units ds)"
        using less [of ds] Cons inner by simp
      with esc tail that surrogate_not_newline(2) [of d] inner show ?thesis
        by (cases "is_low_surrogate d") (simp_all add: eq_commute [of "0x000A"])
    qed
    have "0x000A \<notin> set (quote_units (c # cs))"
      using tail esc pair
      by (simp only: quote_units.simps(2) split: if_split)
         (simp add: eq_commute [of "0x000A"])
    with Cons show ?thesis by simp
  qed
qed

lemma newline_not_in_JSON_value: "JSON_value v = Some j \<Longrightarrow> 0x000A \<notin> set j"
  by (cases v)
     (auto simp: QuoteJSONString_def newline_not_in_quote_units Number_toString_def
        newline_not_in_decimal ascii_def split: if_splits)

subsection \<open>The decision rule\<close>

lemma shouldUseRAG_NaN: "ragThreshold ragOptions = NaN \<Longrightarrow> shouldUseRAG ragOptions M = enableRAG ragOptions"
  by (simp add: shouldUseRAG_def)

lemma shouldUseRAG_number:
  assumes "ragThreshold ragOptions \<noteq> NaN"
  shows "shouldUseRAG ragOptions M
           = (enableRAG ragOptions
              \<and> (js_equals (ragThreshold ragOptions) (Num 0)
                 \<or> js_geq (Num (of_nat (length M))) (ragThreshold ragOptions)))"
proof (cases "ragThreshold ragOptions")
  case (Num t)
  have "0 \<le> (of_nat (length M) :: rat)" by simp
  then show ?thesis
    by (auto simp: shouldUseRAG_def Num)
next
  case NaN
  with assms show ?thesis by simp
next
  case Infinity
  then show ?thesis by (simp add: shouldUseRAG_def)
next
  case MinusInfinity
  then show ?thesis by (simp add: shouldUseRAG_def)
qed

text \<open>
  The rule as the specification words it, at the threshold \<open>NaN\<close> that
  \<open>updateRAGOptions({ragThreshold: NaN})\<close> stores: RAG is enabled and \<open>shouldUseRAG\<close>
  is true, while the threshold is not \<open>0\<close> and no length is \<open>>= NaN\<close>.
\<close>

theorem shouldUseRAG_NaN_counterexample:
  "ragThreshold (updateRAGOptions NaN_update example_options) = NaN
   \<and> enableRAG (updateRAGOptions NaN_update example_options)
   \<and> shouldUseRAG (updateRAGOptions NaN_update example_options) (ascii ''hi'')
   \<and> \<not> (enableRAG (updateRAGOptions NaN_update example_options)
        \<and> (js_equals (ragThreshold (updateRAGOptions NaN_update example_options)) (Num 0)
           \<or> js_geq (Num (of_nat (length (ascii ''hi''))))
                (ragThreshold (updateRAGOptions NaN_update example_options))))"
  by (simp add: updateRAGOptions_def NaN_update_def example_options_def shouldUseRAG_def)

text \<open>
  C2. For a threshold that is a number, \<open>shouldUseRAG\<close> is true exactly when RAG is
  enabled and the threshold equals \<open>0\<close> or the message has at least that many code
  units (the comparisons are those of JavaScript numbers: fractions and the infinities
  included). For the threshold \<open>NaN\<close> it is true exactly when RAG is enabled.
\<close>

theorem shouldUseRAG_iff:
  "(ragThreshold ragOptions \<noteq> NaN \<longrightarrow>
      shouldUseRAG ragOptions M
        = (enableRAG ragOptions
           \<and> (js_equals (ragThreshold ragOptions) (Num 0)
              \<or> js_geq (Num (of_nat (length M))) (ragThreshold ragOptions))))
   \<and> (ragThreshold ragOptions = NaN \<longrightarrow> shouldUseRAG ragOptions M = enableRAG ragOptions)"
  using shouldUseRAG_number [of ragOptions M] shouldUseRAG_NaN [of ragOptions M] by blast

theorem shouldUseRAG_iff_witness:
  "ragThreshold (example_options\<lparr>ragThreshold := Num 3\<rparr>) \<noteq> NaN
   \<and> \<not> shouldUseRAG (example_options\<lparr>ragThreshold := Num 3\<rparr>) (ascii ''hi'')
   \<and> shouldUseRAG (example_options\<lparr>ragThreshold := Num 3\<rparr>) (ascii ''hey'')
   \<and> shouldUseRAG example_options []
   \<and> ragThreshold (updateRAGOptions NaN_update example_options) = NaN
   \<and> shouldUseRAG (updateRAGOptions NaN_update example_options) (ascii ''hi'')"
proof -
  have three: "ragThreshold (example_options\<lparr>ragThreshold := Num 3\<rparr>) \<noteq> NaN" by simp
  have zero: "ragThreshold example_options \<noteq> NaN" by (simp add: example_options_def)
  have nan: "ragThreshold (updateRAGOptions NaN_update example_options) = NaN"
    by (simp add: updateRAGOptions_def NaN_update_def)
  have short: "\<not> shouldUseRAG (example_options\<lparr>ragThreshold := Num 3\<rparr>) (ascii ''hi'')"
    using shouldUseRAG_iff [of "example_options\<lparr>ragThreshold := Num 3\<rparr>" "ascii ''hi''"] three
    by (simp add: ascii_def)
  have long: "shouldUseRAG (example_options\<lparr>ragThreshold := Num 3\<rparr>) (ascii ''hey'')"
    using shouldUseRAG_iff [of "example_options\<lparr>ragThreshold := Num 3\<rparr>" "ascii ''hey''"] three
    by (simp add: ascii_def example_options_def)
  have unset: "shouldUseRAG example_options []"
    using shouldUseRAG_iff [of example_options "[]"] zero
    by (simp add: example_options_def)
  have always: "shouldUseRAG (updateRAGOptions NaN_update example_options) (ascii ''hi'')"
    using shouldUseRAG_iff [of "updateRAGOptions NaN_update example_options" "ascii ''hi''"] nan
    by (simp add: updateRAGOptions_def NaN_update_def example_options_def)
  show ?thesis
    by (intro conjI) (fact three short long unset nan always)+
qed

subsection \<open>Prompt assembly\<close>

lemma empty_documents_prompt:
  "buildRAGPrompt Q [] = Q
   \<and> buildPrompt Q [] = template_header @ template_question @ Q @ template_suffix"
  by (simp add: buildRAGPrompt_def buildPrompt_def contextSections_def)

text \<open>
  C5. With no document, \<open>buildRAGPrompt\<close> returns the query itself, as its comment
  says. The retrieval chain's \<open>buildPrompt\<close> misses the case: on the query \<open>hi\<close> and no
  document it returns the template around an empty document part, not \<open>hi\<close>.
\<close>

theorem buildPrompt_empty_applies_template:
  "buildRAGPrompt (ascii ''hi'') [] = ascii ''hi''
   \<and> buildPrompt (ascii ''hi'') [] = template_header @ template_question @ ascii ''hi'' @ template_suffix
   \<and> buildPrompt (ascii ''hi'') [] \<noteq> ascii ''hi''"
  by (simp add: buildRAGPrompt_def buildPrompt_def contextSections_def template_header_def)

lemma join_sections_labelled:
  "join [0x000A, 0x000A] (map_index doc_section i D) = labelled_documents (Suc i) D"
  by (induction "Suc i" D arbitrary: i rule: labelled_documents.induct)
     (simp_all add: doc_section_def doc_label_def)

text \<open>
  With the query \<open>hi\<close> and one document the prompt does not end with \<open>hi\<close>: the
  instruction follows the query.
\<close>

theorem prompt_ends_with_query_counterexample:
  "\<not> suffix (ascii ''hi'')
       (buildRAGPrompt (ascii ''hi'') [\<lparr>doc_content = ascii ''x'', doc_metadata = []\<rparr>])"
  by (simp add: suffix_to_prefix buildRAGPrompt_def contextSections_def doc_section_def
        template_header_def template_question_def template_suffix_def ascii_def
        decimal.simps digit_def)

text \<open>
  C4. For a non-empty sequence of documents both builders give the header, then every
  document in input order under its 1-based label, two documents separated by a blank
  line, then the question line with the query, then the fixed instruction: the prompt
  ends with the query followed by that instruction, not with the query.
\<close>

theorem prompt_structure:
  assumes "D \<noteq> []"
  shows "buildRAGPrompt Q D
           = template_header @ labelled_documents 1 D @ template_question @ Q @ template_suffix
         \<and> buildPrompt Q D = buildRAGPrompt Q D
         \<and> suffix (Q @ template_suffix) (buildRAGPrompt Q D)"
  using assms
  by (simp add: buildRAGPrompt_def buildPrompt_def contextSections_def
        join_sections_labelled suffix_def)

theorem prompt_structure_witness:
  "[\<lparr>doc_content = ascii ''x'', doc_metadata = []\<rparr>, \<lparr>doc_content = ascii ''y'', doc_metadata = []\<rparr>] \<noteq> []
   \<and> buildRAGPrompt (ascii ''hi'')
        [\<lparr>doc_content = ascii ''x'', doc_metadata = []\<rparr>, \<lparr>doc_content = ascii ''y'', doc_metadata = []\<rparr>]
       = template_header
         @ [0x005B, 0x6587, 0x6863, 0x0020, 0x0031, 0x005D, 0x000A, 0x0078, 0x000A, 0x000A,
            0x005B, 0x6587, 0x6863, 0x0020, 0x0032, 0x005D, 0x000A, 0x0079]
         @ template_question @ [0x0068, 0x0069] @ template_suffix"
  using prompt_structure [of "[\<lparr>doc_content = ascii ''x'', doc_metadata = []\<rparr>,
      \<lparr>doc_content = ascii ''y'', doc_metadata = []\<rparr>]" "ascii ''hi''"]
  by (simp add: doc_label_def decimal.simps digit_def ascii_def)

subsection \<open>Frames of the streaming response\<close>

lemma enqueue_all_append:
  "enqueue_all (xs @ ys) c
     = (case enqueue_all xs c of
          (c1, Some thrown) \<Rightarrow> (c1, Some thrown)
        | (c1, None) \<Rightarrow> enqueue_all ys c1)"
  by (induction xs arbitrary: c) (simp_all split: sum.splits)

lemma forward_content_enqueue_all:
  "forward_content frs c
     = enqueue_all (map data_frame (filter (\<lambda>ch. type ch = Content) (streamChat_loop frs))) c"
proof (induction frs arbitrary: c)
  case Nil
  show ?case by simp
next
  case (Cons fr frs)
  show ?case
    by (cases "fragment_content fr")
       (simp_all add: Cons.IH streamChat_body_def content_chunk_def thinking_chunk_def
          split: sum.splits)
qed

lemma forward_body_enqueue_all:
  "forward_body fr c = enqueue_all (map data_frame (streamChat_body fr)) c"
  by (cases "fragment_content fr")
     (simp_all add: forward_body_def streamChat_body_def Let_def split: sum.splits)

lemma forward_content_thinking_enqueue_all:
  "forward_content_thinking frs c = enqueue_all (map data_frame (streamChat_loop frs)) c"
  by (induction frs arbitrary: c)
     (simp_all add: forward_body_enqueue_all enqueue_all_append)

text \<open>A controller that is not closed and has taken no more frames than its consumer reads.\<close>

lemma enqueue_all_open:
  assumes "\<not> closed c"
    and "case cancel_after c of None \<Rightarrow> True | Some n \<Rightarrow> length (enqueued c) \<le> n"
  shows "enqueue_all frames c
           = (c\<lparr>enqueued := take_frames (cancel_after c) (enqueued c @ frames)\<rparr>,
              if frames = [] \<or> reads_on (cancel_after c) (length (enqueued c) + length frames - 1)
              then None else Some controller_closed)"
  using assms
proof (induction frames arbitrary: c)
  case Nil
  then show ?case
    by (cases "cancel_after c") (simp_all add: take_frames_def)
next
  case (Cons f fs)
  show ?case
  proof (cases "cancelled c")
    case True
    then obtain n where n: "cancel_after c = Some n" "n \<le> length (enqueued c)"
      by (auto simp: cancelled_def split: option.splits)
    with Cons.prems have "length (enqueued c) = n" by simp
    with n True Cons.prems show ?thesis
      by (simp add: enqueue_def take_frames_def reads_on_def)
  next
    case False
    let ?c1 = "c\<lparr>enqueued := enqueued c @ [f]\<rparr>"
    have e: "enqueue f c = Inr ?c1"
      using False Cons.prems by (simp add: enqueue_def)
    have open1: "\<not> closed ?c1" using Cons.prems by simp
    have fits1: "case cancel_after ?c1 of None \<Rightarrow> True | Some n \<Rightarrow> length (enqueued ?c1) \<le> n"
      using False by (auto simp: cancelled_def split: option.splits)
    show ?thesis
      using Cons.IH [OF open1 fits1] e False
      by (cases fs) (auto simp: cancelled_def reads_on_def take_frames_def split: option.splits)
  qed
qed

lemma enqueue_all_new:
  "enqueue_all frames (new_controller consumer)
     = ((new_controller consumer)\<lparr>enqueued := take_frames consumer frames\<rparr>,
        if frames = [] \<or> reads_on consumer (length frames - 1)
        then None else Some controller_closed)"
  using enqueue_all_open [of "new_controller consumer" frames]
  by (simp add: new_controller_def split: option.splits)

lemma settle:
  "(case (case ((new_controller consumer)\<lparr>enqueued := take_frames consumer frames\<rparr>,
                if frames = [] \<or> reads_on consumer (length frames - 1)
                then thrown else Some controller_closed) of
            (c1, Some t) \<Rightarrow> (c1, Some t)
          | (c1, None) \<Rightarrow> enqueue_DONE_and_close c1) of
      (c, None) \<Rightarrow> c
    | (c, Some error) \<Rightarrow> start_catch error c)
   = settled consumer frames thrown"
proof (cases consumer)
  case None
  show ?thesis
    by (cases thrown)
       (auto simp: None settled_def new_controller_def take_frames_def reads_on_def
          closing_frames_def enqueue_DONE_and_close_def start_catch_def enqueue_def close_def
          cancelled_def split: option.splits)
next
  case (Some n)
  have conv: "String_error controller_closed
      = Some (ascii ''TypeError: Invalid state: Controller is already closed'')"
    by (simp add: controller_closed_def TypeError_def ascii_def)
  consider (cut) "n < length frames" | (all) "n = length frames" | (one) "n = Suc (length frames)"
    | (more) "Suc (length frames) < n"
    by linarith
  then show ?thesis
  proof cases
    case cut
    then show ?thesis
      by (cases thrown)
         (auto simp: Some conv settled_def new_controller_def take_frames_def reads_on_def
            closing_frames_def enqueue_DONE_and_close_def start_catch_def enqueue_def close_def
            cancelled_def split: option.splits)
  next
    case all
    then show ?thesis
      by (cases thrown)
         (auto simp: Some conv settled_def new_controller_def take_frames_def reads_on_def
            closing_frames_def enqueue_DONE_and_close_def start_catch_def enqueue_def close_def
            cancelled_def split: option.splits)
  next
    case one
    then show ?thesis
      by (cases thrown)
         (auto simp: Some conv settled_def new_controller_def take_frames_def reads_on_def
            closing_frames_def enqueue_DONE_and_close_def start_catch_def enqueue_def close_def
            cancelled_def split: option.splits)
  next
    case more
    then show ?thesis
      by (cases thrown)
         (auto simp: Some conv settled_def new_controller_def take_frames_def reads_on_def
            closing_frames_def enqueue_DONE_and_close_def start_catch_def enqueue_def close_def
            cancelled_def split: option.splits)
  qed
qed

lemma take_frames_Nil: "take_frames consumer [] = []"
  by (cases consumer) (simp_all add: take_frames_def)

lemma settled_nothing_enqueued:
  "settled consumer [] (Some error) = start_catch error (new_controller consumer)"
  using settle [of consumer "[]" "Some error", symmetric]
  by (simp add: take_frames_Nil new_controller_def)

lemma createStreamingResponse_invoke_fails:
  assumes "invoke m (convertToLangChainMessages m messages) = Inl error"
  shows "createStreamingResponse consumer m messages w = settled consumer [] (Some error)"
  using assms
  by (simp add: settled_nothing_enqueued createStreamingResponse_def start_try_def)

lemma tools_requested:
  assumes "tool_calls response = Some calls" "calls \<noteq> []"
  shows "has_tool_calls response" "requested_calls response = calls"
  using assms by (simp_all add: has_tool_calls_def requested_calls_def)

lemma no_tools_requested:
  assumes "tool_calls response = None \<or> tool_calls response = Some []"
  shows "\<not> has_tool_calls response"
  using assms by (auto simp: has_tool_calls_def)

lemma createStreamingResponse_tools_fail:
  assumes "invoke m (convertToLangChainMessages m messages) = Inr response"
    and "tool_calls response = Some calls" "calls \<noteq> []"
    and "executeToolCalls (toolMap m) calls w = (Inl error, w')"
  shows "createStreamingResponse consumer m messages w = settled consumer [] (Some error)"
  using assms(1,4)
  by (simp add: settled_nothing_enqueued createStreamingResponse_def start_try_def
        tools_requested [OF assms(2,3)])

lemma createStreamingResponse_tool_branch:
  assumes "invoke m (convertToLangChainMessages m messages) = Inr response"
    and "tool_calls response = Some calls" "calls \<noteq> []"
    and "executeToolCalls (toolMap m) calls w = (Inr toolMessages, w')"
  shows "createStreamingResponse consumer m messages w
           = settled consumer
               (map data_frame (filter (\<lambda>ch. type ch = Content)
                  (streamChat_loop (fragments (stream m (second_history m messages response toolMessages))))))
               (failure (stream m (second_history m messages response toolMessages)))"
proof -
  let ?s = "stream m (second_history m messages response toolMessages)"
  let ?F = "map data_frame (filter (\<lambda>ch. type ch = Content) (streamChat_loop (fragments ?s)))"
  have "start_try m messages w (new_controller consumer)
      = (case ((new_controller consumer)\<lparr>enqueued := take_frames consumer ?F\<rparr>,
                if ?F = [] \<or> reads_on consumer (length ?F - 1)
                then failure ?s else Some controller_closed) of
            (c1, Some t) \<Rightarrow> (c1, Some t)
          | (c1, None) \<Rightarrow> enqueue_DONE_and_close c1)"
    using assms(1,4)
    by (simp add: start_try_def tools_requested [OF assms(2,3)] second_history_def
          forward_content_enqueue_all enqueue_all_new Let_def)
  then show ?thesis
    by (simp only: createStreamingResponse_def settle)
qed

lemma createStreamingResponse_plain_branch:
  assumes "invoke m (convertToLangChainMessages m messages) = Inr response"
    and "tool_calls response = None \<or> tool_calls response = Some []"
  shows "createStreamingResponse consumer m messages w
           = settled consumer
               (map data_frame
                  (streamChat_loop (fragments (stream m (convertToLangChainMessages m messages)))))
               (failure (stream m (convertToLangChainMessages m messages)))"
proof -
  let ?s = "stream m (convertToLangChainMessages m messages)"
  let ?F = "map data_frame (streamChat_loop (fragments ?s))"
  have "start_try m messages w (new_controller consumer)
      = (case ((new_controller consumer)\<lparr>enqueued := take_frames consumer ?F\<rparr>,
                if ?F = [] \<or> reads_on consumer (length ?F - 1)
                then failure ?s else Some controller_closed) of
            (c1, Some t) \<Rightarrow> (c1, Some t)
          | (c1, None) \<Rightarrow> enqueue_DONE_and_close c1)"
    using assms(1)
    by (simp add: start_try_def no_tools_requested [OF assms(2)]
          forward_content_thinking_enqueue_all enqueue_all_new Let_def)
  then show ?thesis
    by (simp only: createStreamingResponse_def settle)
qed

text \<open>Every run is one of the four.\<close>

lemma run_cases:
  obtains (invoke_fails) error where "invoke m (convertToLangChainMessages m messages) = Inl error"
  | (tools_fail) response calls error w' where
      "invoke m (convertToLangChainMessages m messages) = Inr response"
      "tool_calls response = Some calls" "calls \<noteq> []"
      "executeToolCalls (toolMap m) calls w = (Inl error, w')"
  | (tool_branch) response calls toolMessages w' where
      "invoke m (convertToLangChainMessages m messages) = Inr response"
      "tool_calls response = Some calls" "calls \<noteq> []"
      "executeToolCalls (toolMap m) calls w = (Inr toolMessages, w')"
  | (plain_branch) response where
      "invoke m (convertToLangChainMessages m messages) = Inr response"
      "tool_calls response = None \<or> tool_calls response = Some []"
proof (cases "invoke m (convertToLangChainMessages m messages)")
  case (Inl error)
  then show ?thesis by (rule invoke_fails)
next
  case (Inr response)
  show ?thesis
  proof (cases "tool_calls response")
    case None
    with Inr show ?thesis by (intro plain_branch [of response]) simp_all
  next
    case (Some calls)
    show ?thesis
    proof (cases "calls = []")
      case True
      with Inr Some show ?thesis by (intro plain_branch [of response]) simp_all
    next
      case False
      obtain r w' where r: "executeToolCalls (toolMap m) calls w = (r, w')"
        by (cases "executeToolCalls (toolMap m) calls w")
      show ?thesis
      proof (cases r)
        case (Inl error)
        with Inr Some False r show ?thesis by (intro tools_fail [of response calls error w']) simp_all
      next
        case (Inr toolMessages)
        with \<open>invoke m (convertToLangChainMessages m messages) = Inr response\<close> Some False r
        show ?thesis by (intro tool_branch [of response calls toolMessages w']) simp_all
      qed
    qed
  qed
qed

lemma quoted_type_names:
  "QuoteJSONString (type_name Content) = [0x22, 0x63, 0x6F, 0x6E, 0x74, 0x65, 0x6E, 0x74, 0x22]"
  "QuoteJSONString (type_name Thinking) = [0x22, 0x74, 0x68, 0x69, 0x6E, 0x6B, 0x69, 0x6E, 0x67, 0x22]"
  "QuoteJSONString (type_name Error) = [0x22, 0x65, 0x72, 0x72, 0x6F, 0x72, 0x22]"
  by (simp_all add: QuoteJSONString_def type_name_def ascii_def is_high_surrogate_def
        is_low_surrogate_def)

lemma frame_has_type_data_frame: "frame_has_type t (data_frame c) = (type c = t)"
  by (cases t; cases "type c")
     (simp_all add: frame_has_type_def data_frame_def sse_def JSON_stringify_def quoted_type_names ascii_def)

lemma not_frame_has_type_DONE: "\<not> frame_has_type t DONE_frame"
  by (cases t) (simp_all add: frame_has_type_def DONE_frame_def sse_def ascii_def)

lemma data_frame_not_DONE: "data_frame c \<noteq> DONE_frame"
  by (simp add: data_frame_def DONE_frame_def sse_def JSON_stringify_def ascii_def)

lemma newline_not_in_JSON_stringify: "0x000A \<notin> set (JSON_stringify c)"
proof -
  have t: "0x000A \<notin> set (QuoteJSONString (type_name (type c)))"
    by (cases "type c") (simp_all add: quoted_type_names)
  have v: "0x000A \<notin> set (case chunk_content c of None \<Rightarrow> []
        | Some v \<Rightarrow> (case JSON_value v of None \<Rightarrow> [] | Some j \<Rightarrow> ascii '',\"content\":'' @ j))"
    using newline_not_in_JSON_value
    by (auto simp: ascii_def split: option.splits)
  have e: "0x000A \<notin> set (case chunk_error c of None \<Rightarrow> []
        | Some e \<Rightarrow> ascii '',\"error\":'' @ QuoteJSONString e)"
    by (auto simp: ascii_def QuoteJSONString_def newline_not_in_quote_units split: option.splits)
  from t v e show ?thesis
    by (simp add: JSON_stringify_def) (simp add: ascii_def)
qed

lemma well_framed_sse: "0x000A \<notin> set payload \<Longrightarrow> well_framed (sse payload)"
proof -
  assume "0x000A \<notin> set payload"
  then have "filter (\<lambda>u. u = 0x000A) payload = []"
    by (auto simp: filter_empty_conv)
  then show ?thesis
    by (simp add: well_framed_def sse_def suffix_def) (simp add: ascii_def)
qed

lemma well_framed_data_frame: "well_framed (data_frame c)"
  unfolding data_frame_def by (rule well_framed_sse) (rule newline_not_in_JSON_stringify)

lemma well_framed_DONE: "well_framed DONE_frame"
  unfolding DONE_frame_def by (rule well_framed_sse) (simp add: ascii_def)

lemma streamChat_body_types:
  "list_all (\<lambda>c. type c = Content \<or> type c = Thinking) (streamChat_body fr)"
  by (cases "fragment_content fr")
     (simp_all add: streamChat_body_def content_chunk_def thinking_chunk_def Let_def)

lemma streamChat_loop_types:
  "list_all (\<lambda>c. type c = Content \<or> type c = Thinking) (streamChat_loop frs)"
  by (induction frs) (simp_all add: streamChat_body_types)

lemma no_error_frames:
  "list_all (\<lambda>c. type c = Content \<or> type c = Thinking) chunks
     \<Longrightarrow> filter (frame_has_type Error) (map data_frame chunks) = []"
  by (induction chunks) (auto simp: frame_has_type_data_frame)

lemma closing_frames_cases:
  obtains (sentinel) "thrown = None" "closing_frames thrown = [DONE_frame]"
  | (error_frame) error shown where "thrown = Some error" "String_error error = Some shown"
      "closing_frames thrown = [data_frame (error_chunk shown)]"
  | (nothing) error where "thrown = Some error" "String_error error = None"
      "closing_frames thrown = []"
proof (cases thrown)
  case None
  show ?thesis by (rule sentinel) (simp_all add: None closing_frames_def)
next
  case (Some error)
  note thrown = Some
  show ?thesis
  proof (cases "String_error error")
    case None
    from thrown None show ?thesis by (rule nothing) (simp add: thrown None closing_frames_def)
  next
    case (Some shown)
    from thrown Some show ?thesis by (rule error_frame) (simp add: thrown Some closing_frames_def)
  qed
qed

lemma well_framed_closing: "list_all well_framed (closing_frames thrown)"
  by (cases thrown rule: closing_frames_cases)
     (simp_all add: well_framed_DONE well_framed_data_frame)

lemma closing_frame:
  assumes "\<forall>error. thrown = Some error \<longrightarrow> String_error error \<noteq> None"
  shows "\<exists>final. closing_frames thrown = [final]
           \<and> (final = DONE_frame) = (thrown = None)
           \<and> frame_has_type Error final = (thrown \<noteq> None)"
  using assms
  by (cases thrown rule: closing_frames_cases)
     (simp_all add: not_frame_has_type_DONE data_frame_not_DONE frame_has_type_data_frame
        error_chunk_def)

lemma framing_of_settled:
  assumes types: "list_all (\<lambda>c. type c = Content \<or> type c = Thinking) chunks"
    and run: "\<And>consumer. createStreamingResponse consumer m messages w
                = settled consumer (map data_frame chunks) thrown"
  shows "list_all (\<lambda>c. type c = Content \<or> type c = Thinking) chunks
   \<and> list_all well_framed (map data_frame chunks @ closing_frames thrown)
   \<and> DONE_frame \<notin> set (map data_frame chunks)
   \<and> filter (frame_has_type Error) (map data_frame chunks) = []
   \<and> ((\<forall>error. thrown = Some error \<longrightarrow> String_error error \<noteq> None) \<longrightarrow>
        (\<exists>final. closing_frames thrown = [final]
           \<and> (final = DONE_frame) = (thrown = None)
           \<and> frame_has_type Error final = (thrown \<noteq> None)
           \<and> createStreamingResponse None m messages w
               = \<lparr>enqueued = map data_frame chunks @ [final], closed = True, rejected = None,
                  cancel_after = None\<rparr>
           \<and> (\<forall>n. createStreamingResponse (Some n) m messages w
                    = \<lparr>enqueued = take n (map data_frame chunks @ [final]),
                       closed = (length chunks + 1 < n),
                       rejected = (if length chunks + 1 < n then None else Some controller_closed),
                       cancel_after = Some n\<rparr>)))"
proof -
  have framed: "list_all well_framed (map data_frame chunks @ closing_frames thrown)"
    using well_framed_closing [of thrown] by (auto simp: list_all_iff well_framed_data_frame)
  have nodone: "DONE_frame \<notin> set (map data_frame chunks)"
    by (auto simp: data_frame_not_DONE [symmetric])
  have noerror: "filter (frame_has_type Error) (map data_frame chunks) = []"
    by (rule no_error_frames [OF types])
  have converted: "\<exists>final. closing_frames thrown = [final]
           \<and> (final = DONE_frame) = (thrown = None)
           \<and> frame_has_type Error final = (thrown \<noteq> None)
           \<and> createStreamingResponse None m messages w
               = \<lparr>enqueued = map data_frame chunks @ [final], closed = True, rejected = None,
                  cancel_after = None\<rparr>
           \<and> (\<forall>n. createStreamingResponse (Some n) m messages w
                    = \<lparr>enqueued = take n (map data_frame chunks @ [final]),
                       closed = (length chunks + 1 < n),
                       rejected = (if length chunks + 1 < n then None else Some controller_closed),
                       cancel_after = Some n\<rparr>)"
    if convertible: "\<forall>error. thrown = Some error \<longrightarrow> String_error error \<noteq> None"
  proof -
    obtain final where final: "closing_frames thrown = [final]"
      and sentinel: "(final = DONE_frame) = (thrown = None)"
      and error: "frame_has_type Error final = (thrown \<noteq> None)"
      using closing_frame [OF convertible] by (elim exE conjE)
    have reads: "createStreamingResponse None m messages w
               = \<lparr>enqueued = map data_frame chunks @ [final], closed = True, rejected = None,
                  cancel_after = None\<rparr>"
      by (simp add: run settled_def final take_frames_def reads_on_def)
    have cancels: "createStreamingResponse (Some n) m messages w
                    = \<lparr>enqueued = take n (map data_frame chunks @ [final]),
                       closed = (length chunks + 1 < n),
                       rejected = (if length chunks + 1 < n then None else Some controller_closed),
                       cancel_after = Some n\<rparr>" for n
      by (simp add: run settled_def final take_frames_def reads_on_def)
    from final sentinel error reads cancels show ?thesis by blast
  qed
  from types framed nodone noerror converted show ?thesis by blast
qed

text \<open>
  C1. Every run is one of four, told apart on the inputs, and each fixes the chunks the
  code sets out to send and the value thrown, if any: \<open>invoke\<close> throws; the tool
  calls throw; the pass after the tools, which throws what its stream fails with; the
  pass without tools, likewise. The chunks are \<open>content\<close> and \<open>thinking\<close> chunks, and
  every frame is one \<open>data:\<close> line and a blank line. When \<open>String\<close> can convert what
  was thrown, one last frame follows the chunks: the sentinel \<open>data: [DONE]\<close> exactly
  when nothing was thrown, an \<open>error\<close> chunk exactly when something was. A consumer
  that reads to the end gets the chunks and that frame, and the stream is closed. A
  consumer that cancels after \<open>n\<close> frames gets the first \<open>n\<close> of them; unless \<open>n\<close>
  is more than their number, the stream is not closed by the code and \<open>start\<close>
  rejects.
\<close>

theorem createStreamingResponse_framing:
  "\<exists>chunks thrown.
      ((\<exists>error. invoke m (convertToLangChainMessages m messages) = Inl error
           \<and> chunks = [] \<and> thrown = Some error)
       \<or> (\<exists>response calls error w'.
             invoke m (convertToLangChainMessages m messages) = Inr response
           \<and> tool_calls response = Some calls \<and> calls \<noteq> []
           \<and> executeToolCalls (toolMap m) calls w = (Inl error, w')
           \<and> chunks = [] \<and> thrown = Some error)
       \<or> (\<exists>response calls toolMessages w'.
             invoke m (convertToLangChainMessages m messages) = Inr response
           \<and> tool_calls response = Some calls \<and> calls \<noteq> []
           \<and> executeToolCalls (toolMap m) calls w = (Inr toolMessages, w')
           \<and> chunks = filter (\<lambda>ch. type ch = Content)
                 (streamChat_loop (fragments (stream m (second_history m messages response toolMessages))))
           \<and> thrown = failure (stream m (second_history m messages response toolMessages)))
       \<or> (\<exists>response.
             invoke m (convertToLangChainMessages m messages) = Inr response
           \<and> (tool_calls response = None \<or> tool_calls response = Some [])
           \<and> chunks = streamChat_loop (fragments (stream m (convertToLangChainMessages m messages)))
           \<and> thrown = failure (stream m (convertToLangChainMessages m messages))))
    \<and> list_all (\<lambda>c. type c = Content \<or> type c = Thinking) chunks
    \<and> list_all well_framed (map data_frame chunks @ closing_frames thrown)
    \<and> DONE_frame \<notin> set (map data_frame chunks)
    \<and> filter (frame_has_type Error) (map data_frame chunks) = []
    \<and> ((\<forall>error. thrown = Some error \<longrightarrow> String_error error \<noteq> None) \<longrightarrow>
         (\<exists>final. closing_frames thrown = [final]
            \<and> (final = DONE_frame) = (thrown = None)
            \<and> frame_has_type Error final = (thrown \<noteq> None)
            \<and> createStreamingResponse None m messages w
                = \<lparr>enqueued = map data_frame chunks @ [final], closed = True, rejected = None,
                   cancel_after = None\<rparr>
            \<and> (\<forall>n. createStreamingResponse (Some n) m messages w
                     = \<lparr>enqueued = take n (map data_frame chunks @ [final]),
                        closed = (length chunks + 1 < n),
                        rejected = (if length chunks + 1 < n then None else Some controller_closed),
                        cancel_after = Some n\<rparr>)))"
  (is "\<exists>chunks thrown. ?run chunks thrown \<and> ?framing chunks thrown")
proof (cases rule: run_cases [where m = m and messages = messages and w = w])
  case (invoke_fails error)
  have "list_all (\<lambda>c. type c = Content \<or> type c = Thinking) ([] :: StreamChunk list)" by simp
  then have "?framing [] (Some error)"
    by (rule framing_of_settled) (simp add: createStreamingResponse_invoke_fails [OF invoke_fails])
  moreover have "?run [] (Some error)"
    by (rule disjI1, intro exI conjI) (rule invoke_fails refl)+
  ultimately have "?run [] (Some error) \<and> ?framing [] (Some error)" by simp
  then show ?thesis by (intro exI)
next
  case (tools_fail response calls error w')
  have "list_all (\<lambda>c. type c = Content \<or> type c = Thinking) ([] :: StreamChunk list)" by simp
  then have "?framing [] (Some error)"
    by (rule framing_of_settled) (simp add: createStreamingResponse_tools_fail [OF tools_fail])
  moreover have "?run [] (Some error)"
    by (rule disjI2, rule disjI1, intro exI conjI) (rule tools_fail refl)+
  ultimately have "?run [] (Some error) \<and> ?framing [] (Some error)" by simp
  then show ?thesis by (intro exI)
next
  case (tool_branch response calls toolMessages w')
  let ?s = "stream m (second_history m messages response toolMessages)"
  let ?cs = "filter (\<lambda>ch. type ch = Content) (streamChat_loop (fragments ?s))"
  have "list_all (\<lambda>c. type c = Content \<or> type c = Thinking) ?cs"
    by (simp add: list_all_iff)
  then have "?framing ?cs (failure ?s)"
    by (rule framing_of_settled) (rule createStreamingResponse_tool_branch [OF tool_branch])
  moreover have "?run ?cs (failure ?s)"
    by (rule disjI2, rule disjI2, rule disjI1, intro exI conjI) (rule tool_branch refl)+
  ultimately have "?run ?cs (failure ?s) \<and> ?framing ?cs (failure ?s)" by simp
  then show ?thesis by (intro exI)
next
  case (plain_branch response)
  let ?s = "stream m (convertToLangChainMessages m messages)"
  let ?cs = "streamChat_loop (fragments ?s)"
  have "list_all (\<lambda>c. type c = Content \<or> type c = Thinking) ?cs"
    by (rule streamChat_loop_types)
  then have "?framing ?cs (failure ?s)"
    by (rule framing_of_settled) (rule createStreamingResponse_plain_branch [OF plain_branch])
  moreover have "?run ?cs (failure ?s)"
    by (rule disjI2, rule disjI2, rule disjI2, intro exI conjI) (rule plain_branch refl)+
  ultimately have "?run ?cs (failure ?s) \<and> ?framing ?cs (failure ?s)" by simp
  then show ?thesis by (intro exI)
qed

subsection \<open>The tool round trip\<close>

lemma executeToolCalls_ids:
  "executeToolCalls tm calls w = (Inr toolMessages, w')
     \<Longrightarrow> map tool_call_id toolMessages
           = map call_id (filter (\<lambda>c. tm (call_name c) \<noteq> None) calls)"
proof (induction calls arbitrary: w toolMessages w')
  case Nil
  then show ?case by simp
next
  case (Cons c calls)
  show ?case
  proof (cases "tm (call_name c)")
    case None
    with Cons.prems have "executeToolCalls tm calls w = (Inr toolMessages, w')" by simp
    from Cons.IH [OF this] None show ?thesis by simp
  next
    case (Some tool)
    obtain r w1 where r: "tool (case call_args c of None \<Rightarrow> [] | Some a \<Rightarrow> a) w = (r, w1)"
      by (cases "tool (case call_args c of None \<Rightarrow> [] | Some a \<Rightarrow> a) w")
    obtain rest w2 where rest: "executeToolCalls tm calls w1 = (rest, w2)"
      by (cases "executeToolCalls tm calls w1")
    from Cons.prems Some r rest obtain restMessages toolMessage where
      "rest = Inr restMessages" "toolMessages = toolMessage # restMessages"
      "tool_call_id toolMessage = call_id c"
      by (cases r; cases rest; cases "error_message_or_String (projl r)")
         (auto split: option.splits)
    with Cons.IH [of w1 restMessages w2] rest Some show ?thesis by simp
  qed
qed

lemma executeToolCalls_all_resolve:
  assumes "executeToolCalls tm calls w = (Inr toolMessages, w')"
    and "list_all (\<lambda>c. tm (call_name c) \<noteq> None) calls"
  shows "length toolMessages = length calls \<and> map tool_call_id toolMessages = map call_id calls"
proof -
  from assms(2) have "filter (\<lambda>c. tm (call_name c) \<noteq> None) calls = calls"
    by (simp add: list_all_iff)
  with executeToolCalls_ids [OF assms(1)]
  have ids: "map tool_call_id toolMessages = map call_id calls" by simp
  then have "length toolMessages = length calls" by (rule map_eq_imp_length_eq)
  with ids show ?thesis by simp
qed

lemma executeToolCalls_unresolved:
  "tm (call_name c) = None \<Longrightarrow> executeToolCalls tm (c # rest) w = executeToolCalls tm rest w"
  by simp

lemma executeToolCalls_error:
  assumes "tm (call_name c) = Some tool"
    and "tool (case call_args c of None \<Rightarrow> [] | Some a \<Rightarrow> a) w = (Inl error, w')"
    and "error_message_or_String error = Some shown"
    and "executeToolCalls tm rest w' = (Inr toolMessages, w'')"
  shows "executeToolCalls tm (c # rest) w
           = (Inr (\<lparr>tool_content = ascii ''Error: '' @ shown, tool_call_id = call_id c\<rparr>
                    # toolMessages), w'')"
  using assms by simp

lemma executeToolCalls_unconvertible:
  assumes "tm (call_name c) = Some tool"
    and "tool (case call_args c of None \<Rightarrow> [] | Some a \<Rightarrow> a) w = (Inl error, w')"
    and "error_message_or_String error = None"
  shows "executeToolCalls tm (c # rest) w = (Inl cannot_convert, w')"
  using assms by simp

text \<open>The loop returns when every value a tool throws can be converted.\<close>

lemma executeToolCalls_returns:
  assumes "\<And>c tool args w error w'.
      c \<in> set calls \<Longrightarrow> tm (call_name c) = Some tool \<Longrightarrow> tool args w = (Inl error, w')
        \<Longrightarrow> error_message_or_String error \<noteq> None"
  shows "\<exists>toolMessages w'. executeToolCalls tm calls w = (Inr toolMessages, w')"
  using assms
proof (induction calls arbitrary: w)
  case Nil
  show ?case by simp
next
  case (Cons c calls)
  have rest: "\<exists>toolMessages w'. executeToolCalls tm calls w1 = (Inr toolMessages, w')" for w1
  proof (rule Cons.IH)
    fix c' tool args w0 error w'
    assume "c' \<in> set calls" "tm (call_name c') = Some tool" "tool args w0 = (Inl error, w')"
    then show "error_message_or_String error \<noteq> None"
      using Cons.prems [of c' tool args w0 error w'] by simp
  qed
  show ?case
  proof (cases "tm (call_name c)")
    case None
    with rest [of w] show ?thesis by simp
  next
    case (Some tool)
    obtain r w1 where r: "tool (case call_args c of None \<Rightarrow> [] | Some a \<Rightarrow> a) w = (r, w1)"
      by (cases "tool (case call_args c of None \<Rightarrow> [] | Some a \<Rightarrow> a) w")
    obtain toolMessages w2 where tail: "executeToolCalls tm calls w1 = (Inr toolMessages, w2)"
      using rest [of w1] by (elim exE)
    show ?thesis
    proof (cases r)
      case (Inl error)
      have "error_message_or_String error \<noteq> None"
        using Cons.prems [of c tool _ w error w1] Some r Inl by simp
      then obtain shown where "error_message_or_String error = Some shown" by (cases "error_message_or_String error") simp_all
      with Some r Inl tail show ?thesis by simp
    next
      case (Inr result)
      with Some r tail show ?thesis by simp
    qed
  qed
qed

subsection \<open>The pass after the tools forwards content only\<close>

lemma content_of_body:
  "filter (\<lambda>ch. type ch = Content) (streamChat_body fr)
     = (case fragment_content fr of
          JStr s \<Rightarrow> if s \<noteq> [] then [content_chunk s] else []
        | _ \<Rightarrow> [])"
  by (cases "fragment_content fr")
     (simp_all add: streamChat_body_def content_chunk_def thinking_chunk_def Let_def)

lemma not_thinking_closing: "list_all (\<lambda>f. \<not> frame_has_type Thinking f) (closing_frames thrown)"
  by (cases thrown rule: closing_frames_cases)
     (simp_all add: not_frame_has_type_DONE frame_has_type_data_frame error_chunk_def)

lemma list_all_take_frames: "list_all P frames \<Longrightarrow> list_all P (take_frames consumer frames)"
  by (cases consumer) (auto simp: take_frames_def list_all_iff dest: in_set_takeD)

lemma no_thinking_frames:
  "list_all (\<lambda>f. \<not> frame_has_type Thinking f)
     (take_frames consumer
        (map data_frame (filter (\<lambda>ch. type ch = Content) cs) @ closing_frames thrown))"
proof (rule list_all_take_frames)
  show "list_all (\<lambda>f. \<not> frame_has_type Thinking f)
     (map data_frame (filter (\<lambda>ch. type ch = Content) cs) @ closing_frames thrown)"
    using not_thinking_closing [of thrown]
    by (auto simp: list_all_iff frame_has_type_data_frame)
qed

lemma enqueued_settled:
  "enqueued (settled consumer frames thrown) = take_frames consumer (frames @ closing_frames thrown)"
  by (simp add: settled_def)

lemma tool_branch_no_thinking:
  assumes "invoke m (convertToLangChainMessages m messages) = Inr response"
    and "tool_calls response = Some calls" "calls \<noteq> []"
  shows "list_all (\<lambda>f. \<not> frame_has_type Thinking f)
           (enqueued (createStreamingResponse consumer m messages w))"
proof -
  obtain r w' where r: "executeToolCalls (toolMap m) calls w = (r, w')"
    by (cases "executeToolCalls (toolMap m) calls w")
  show ?thesis
  proof (cases r)
    case (Inl error)
    with r have "executeToolCalls (toolMap m) calls w = (Inl error, w')" by simp
    from createStreamingResponse_tools_fail [OF assms this]
    have "enqueued (createStreamingResponse consumer m messages w)
        = take_frames consumer (map data_frame (filter (\<lambda>ch. type ch = Content) [])
            @ closing_frames (Some error))"
      by (simp add: enqueued_settled)
    then show ?thesis by (simp only: no_thinking_frames)
  next
    case (Inr toolMessages)
    with r have "executeToolCalls (toolMap m) calls w = (Inr toolMessages, w')" by simp
    from createStreamingResponse_tool_branch [OF assms this]
    show ?thesis by (simp only: enqueued_settled no_thinking_frames)
  qed
qed

text \<open>
  C7. After tool calls no frame is a \<open>thinking\<close> frame, whatever the consumer does and
  whether the tools return or throw; when they return, the frames that reach the
  consumer are cut from the \<open>content\<close> chunks of the second stream followed by the
  closing frame, and what a fragment contributes does not depend on its reasoning
  fields. Without tool calls they are cut from all the chunks \<open>streamChat\<close> would emit,
  \<open>thinking\<close> included, followed by the closing frame.
\<close>

theorem second_pass_content_only:
  "(invoke m (convertToLangChainMessages m messages) = Inr response
      \<and> tool_calls response = Some calls \<and> calls \<noteq> [] \<longrightarrow>
      list_all (\<lambda>f. \<not> frame_has_type Thinking f)
        (enqueued (createStreamingResponse consumer m messages w))
      \<and> (\<forall>toolMessages w'. executeToolCalls (toolMap m) calls w = (Inr toolMessages, w') \<longrightarrow>
            enqueued (createStreamingResponse consumer m messages w)
              = take_frames consumer
                  (map data_frame (filter (\<lambda>ch. type ch = Content)
                     (streamChat_loop (fragments
                        (stream m (second_history m messages response toolMessages)))))
                   @ closing_frames
                       (failure (stream m (second_history m messages response toolMessages))))))
   \<and> filter (\<lambda>ch. type ch = Content) (streamChat_body fr)
       = (case fragment_content fr of
            JStr s \<Rightarrow> if s \<noteq> [] then [content_chunk s] else []
          | _ \<Rightarrow> [])
   \<and> (invoke m (convertToLangChainMessages m messages) = Inr response
      \<and> (tool_calls response = None \<or> tool_calls response = Some []) \<longrightarrow>
      enqueued (createStreamingResponse consumer m messages w)
        = take_frames consumer
            (map data_frame
               (streamChat_loop (fragments (stream m (convertToLangChainMessages m messages))))
             @ closing_frames (failure (stream m (convertToLangChainMessages m messages)))))"
proof -
  have tool: "list_all (\<lambda>f. \<not> frame_has_type Thinking f)
        (enqueued (createStreamingResponse consumer m messages w))
      \<and> (\<forall>toolMessages w'. executeToolCalls (toolMap m) calls w = (Inr toolMessages, w') \<longrightarrow>
            enqueued (createStreamingResponse consumer m messages w)
              = take_frames consumer
                  (map data_frame (filter (\<lambda>ch. type ch = Content)
                     (streamChat_loop (fragments
                        (stream m (second_history m messages response toolMessages)))))
                   @ closing_frames
                       (failure (stream m (second_history m messages response toolMessages)))))"
    if asked: "invoke m (convertToLangChainMessages m messages) = Inr response"
      "tool_calls response = Some calls" "calls \<noteq> []"
  proof (intro conjI allI impI)
    show "list_all (\<lambda>f. \<not> frame_has_type Thinking f)
        (enqueued (createStreamingResponse consumer m messages w))"
      by (rule tool_branch_no_thinking [OF asked])
  next
    fix toolMessages w'
    assume "executeToolCalls (toolMap m) calls w = (Inr toolMessages, w')"
    from createStreamingResponse_tool_branch [OF asked this]
    show "enqueued (createStreamingResponse consumer m messages w)
              = take_frames consumer
                  (map data_frame (filter (\<lambda>ch. type ch = Content)
                     (streamChat_loop (fragments
                        (stream m (second_history m messages response toolMessages)))))
                   @ closing_frames
                       (failure (stream m (second_history m messages response toolMessages))))"
      by (simp only: enqueued_settled)
  qed
  have plain: "enqueued (createStreamingResponse consumer m messages w)
        = take_frames consumer
            (map data_frame
               (streamChat_loop (fragments (stream m (convertToLangChainMessages m messages))))
             @ closing_frames (failure (stream m (convertToLangChainMessages m messages))))"
    if "invoke m (convertToLangChainMessages m messages) = Inr response"
      "tool_calls response = None \<or> tool_calls response = Some []"
    using createStreamingResponse_plain_branch [OF that] by (simp only: enqueued_settled)
  have tool': "invoke m (convertToLangChainMessages m messages) = Inr response
      \<and> tool_calls response = Some calls \<and> calls \<noteq> [] \<longrightarrow>
      list_all (\<lambda>f. \<not> frame_has_type Thinking f)
        (enqueued (createStreamingResponse consumer m messages w))
      \<and> (\<forall>toolMessages w'. executeToolCalls (toolMap m) calls w = (Inr toolMessages, w') \<longrightarrow>
            enqueued (createStreamingResponse consumer m messages w)
              = take_frames consumer
                  (map data_frame (filter (\<lambda>ch. type ch = Content)
                     (streamChat_loop (fragments
                        (stream m (second_history m messages response toolMessages)))))
                   @ closing_frames
                       (failure (stream m (second_history m messages response toolMessages)))))"
    by (intro impI, elim conjE, rule tool) assumption+
  have plain': "invoke m (convertToLangChainMessages m messages) = Inr response
      \<and> (tool_calls response = None \<or> tool_calls response = Some []) \<longrightarrow>
      enqueued (createStreamingResponse consumer m messages w)
        = take_frames consumer
            (map data_frame
               (streamChat_loop (fragments (stream m (convertToLangChainMessages m messages))))
             @ closing_frames (failure (stream m (convertToLangChainMessages m messages))))"
    by (intro impI, elim conjE, rule plain) assumption+
  show ?thesis
    by (intro conjI) (fact tool' plain' content_of_body)+
qed

subsection \<open>A thinking chunk only follows a content chunk\<close>

lemma placed_append:
  "placed p (xs @ ys) = (placed p xs \<and> placed (if xs = [] then p else Some (type (last xs))) ys)"
  by (induction xs arbitrary: p) auto

lemma placed_body: "placed p (streamChat_body fr)"
  by (cases "fragment_content fr")
     (simp_all add: streamChat_body_def content_chunk_def thinking_chunk_def Let_def)

lemma placed_loop: "placed p (streamChat_loop frs)"
  by (induction frs arbitrary: p) (simp_all add: placed_append placed_body)

lemma placed_streamChat: "placed p (streamChat m messages)"
  by (simp add: streamChat_def Let_def placed_append placed_loop error_chunk_def
        split: option.splits)

lemma placed_nth:
  "placed p cs \<Longrightarrow> i < length cs \<Longrightarrow> type (cs ! i) = Thinking
     \<Longrightarrow> (if i = 0 then p = Some Content else type (cs ! (i - 1)) = Content)"
proof (induction cs arbitrary: p i)
  case Nil
  then show ?case by simp
next
  case (Cons c cs)
  show ?case
  proof (cases i)
    case 0
    with Cons.prems show ?thesis by simp
  next
    case (Suc j)
    with Cons.prems have "placed (Some (type c)) cs" "j < length cs" "type (cs ! j) = Thinking"
      by simp_all
    from Cons.IH [OF this] Suc show ?thesis by (cases j) simp_all
  qed
qed

lemma placed_None_nth:
  assumes "placed None cs" "i < length cs" "type (cs ! i) = Thinking"
  shows "0 < i \<and> type (cs ! (i - 1)) = Content"
  using placed_nth [OF assms] by (cases "i = 0") simp_all

lemma silent_fragment:
  assumes "\<forall>s. fragment_content fr = JStr s \<longrightarrow> s = []"
  shows "streamChat_body fr = [] \<and> forward_body fr c = (c, None)"
  using assms
  by (cases "fragment_content fr") (simp_all add: streamChat_body_def forward_body_def)

lemma thinking_frames_placed:
  assumes placed: "\<forall>i < length cs. type (cs ! i) = Thinking \<longrightarrow> 0 < i \<and> type (cs ! (i - 1)) = Content"
  shows "\<forall>i < length (take_frames consumer (map data_frame cs @ closing_frames thrown)).
           frame_has_type Thinking (take_frames consumer (map data_frame cs @ closing_frames thrown) ! i)
             \<longrightarrow> 0 < i
                 \<and> frame_has_type Content
                     (take_frames consumer (map data_frame cs @ closing_frames thrown) ! (i - 1))"
proof -
  let ?fs = "map data_frame cs @ closing_frames thrown"
  have whole: "0 < i \<and> frame_has_type Content (?fs ! (i - 1))"
    if i: "i < length ?fs" and thinking: "frame_has_type Thinking (?fs ! i)" for i
  proof (cases "i < length cs")
    case True
    with thinking have "type (cs ! i) = Thinking"
      by (simp add: nth_append frame_has_type_data_frame)
    with placed True have positive: "0 < i" and before: "type (cs ! (i - 1)) = Content"
      by simp_all
    from True have "i - 1 < length cs" by simp
    then have "?fs ! (i - 1) = data_frame (cs ! (i - 1))"
      by (simp add: nth_append)
    with positive before show ?thesis
      by (simp add: frame_has_type_data_frame)
  next
    case False
    with i have "?fs ! i \<in> set (closing_frames thrown)"
      by (simp add: nth_append)
    with not_thinking_closing [of thrown] thinking show ?thesis
      by (simp add: list_all_iff)
  qed
  show ?thesis
  proof (cases consumer)
    case None
    with whole show ?thesis by (simp add: take_frames_def)
  next
    case (Some n)
    show ?thesis
    proof (intro allI impI)
      fix i
      assume i: "i < length (take_frames consumer ?fs)"
        and thinking: "frame_has_type Thinking (take_frames consumer ?fs ! i)"
      have cut: "take_frames consumer ?fs = take n ?fs"
        by (simp only: take_frames_def Some option.case)
      have same: "take n ?fs ! j = ?fs ! j" if "j < n" for j
        using that by (rule nth_take)
      from i have "i < length (take n ?fs)" by (simp only: cut)
      then have bounds: "i < length ?fs" "i < n" by simp_all
      from thinking have "frame_has_type Thinking (?fs ! i)"
        by (simp only: cut same [OF bounds(2)])
      with bounds(1) have found: "0 < i \<and> frame_has_type Content (?fs ! (i - 1))"
        by (rule whole)
      then have "i - 1 < n" using bounds(2) by simp
      from found show "0 < i \<and> frame_has_type Content (take_frames consumer ?fs ! (i - 1))"
        by (simp only: cut same [OF \<open>i - 1 < n\<close>])
    qed
  qed
qed

text \<open>
  C10. A fragment whose content is not a non-empty string emits nothing, whatever its
  reasoning fields; any other fragment emits its \<open>content\<close> chunk, then at most one
  \<open>thinking\<close> chunk. In the chunks of \<open>streamChat\<close>, and in the chunks framed by the
  pass without tools, every \<open>thinking\<close> chunk has a predecessor, and it is a
  \<open>content\<close> chunk; the same holds of the frames that reach the consumer, whenever
  it cancels.
\<close>

theorem thinking_only_after_content:
  "((\<forall>s. fragment_content fr = JStr s \<longrightarrow> s = []) \<longrightarrow>
      streamChat_body fr = [] \<and> forward_body fr c = (c, None))
   \<and> (streamChat_body fr = []
      \<or> (\<exists>s. fragment_content fr = JStr s \<and> s \<noteq> []
            \<and> (streamChat_body fr = [content_chunk s]
               \<or> streamChat_body fr
                   = [content_chunk s,
                      thinking_chunk (js_or (reasoning_content fr) (thinking fr))])))
   \<and> (\<forall>i < length (streamChat m messages).
        type (streamChat m messages ! i) = Thinking \<longrightarrow>
          0 < i \<and> type (streamChat m messages ! (i - 1)) = Content)
   \<and> (invoke m (convertToLangChainMessages m messages) = Inr response
      \<and> (tool_calls response = None \<or> tool_calls response = Some []) \<longrightarrow>
        (\<exists>cs. enqueued (createStreamingResponse consumer m messages w)
                = take_frames consumer
                    (map data_frame cs
                     @ closing_frames (failure (stream m (convertToLangChainMessages m messages))))
             \<and> cs = streamChat_loop (fragments (stream m (convertToLangChainMessages m messages)))
             \<and> (\<forall>i < length cs. type (cs ! i) = Thinking \<longrightarrow>
                   0 < i \<and> type (cs ! (i - 1)) = Content))
        \<and> (\<forall>i < length (enqueued (createStreamingResponse consumer m messages w)).
              frame_has_type Thinking (enqueued (createStreamingResponse consumer m messages w) ! i)
                \<longrightarrow> 0 < i
                    \<and> frame_has_type Content
                        (enqueued (createStreamingResponse consumer m messages w) ! (i - 1))))"
proof -
  have silent: "(\<forall>s. fragment_content fr = JStr s \<longrightarrow> s = []) \<longrightarrow>
      streamChat_body fr = [] \<and> forward_body fr c = (c, None)"
    using silent_fragment [of fr c] by blast
  have shape: "streamChat_body fr = []
      \<or> (\<exists>s. fragment_content fr = JStr s \<and> s \<noteq> []
            \<and> (streamChat_body fr = [content_chunk s]
               \<or> streamChat_body fr
                   = [content_chunk s,
                      thinking_chunk (js_or (reasoning_content fr) (thinking fr))]))"
    by (cases "fragment_content fr") (simp_all add: streamChat_body_def Let_def)
  have chat: "\<forall>i < length (streamChat m messages).
        type (streamChat m messages ! i) = Thinking \<longrightarrow>
          0 < i \<and> type (streamChat m messages ! (i - 1)) = Content"
    using placed_None_nth [OF placed_streamChat] by blast
  let ?cs = "streamChat_loop (fragments (stream m (convertToLangChainMessages m messages)))"
  let ?t = "failure (stream m (convertToLangChainMessages m messages))"
  have loop: "\<forall>i < length ?cs. type (?cs ! i) = Thinking \<longrightarrow> 0 < i \<and> type (?cs ! (i - 1)) = Content"
    using placed_None_nth [OF placed_loop] by blast
  have plain: "(\<exists>cs. enqueued (createStreamingResponse consumer m messages w)
                = take_frames consumer (map data_frame cs @ closing_frames ?t)
             \<and> cs = ?cs
             \<and> (\<forall>i < length cs. type (cs ! i) = Thinking \<longrightarrow>
                   0 < i \<and> type (cs ! (i - 1)) = Content))
        \<and> (\<forall>i < length (enqueued (createStreamingResponse consumer m messages w)).
              frame_has_type Thinking (enqueued (createStreamingResponse consumer m messages w) ! i)
                \<longrightarrow> 0 < i
                    \<and> frame_has_type Content
                        (enqueued (createStreamingResponse consumer m messages w) ! (i - 1)))"
    if "invoke m (convertToLangChainMessages m messages) = Inr response"
      "tool_calls response = None \<or> tool_calls response = Some []"
  proof -
    have frames: "enqueued (createStreamingResponse consumer m messages w)
                = take_frames consumer (map data_frame ?cs @ closing_frames ?t)"
      using createStreamingResponse_plain_branch [OF that] by (simp only: enqueued_settled)
    have "\<exists>cs. enqueued (createStreamingResponse consumer m messages w)
                = take_frames consumer (map data_frame cs @ closing_frames ?t)
             \<and> cs = ?cs
             \<and> (\<forall>i < length cs. type (cs ! i) = Thinking \<longrightarrow>
                   0 < i \<and> type (cs ! (i - 1)) = Content)"
      using frames loop by (intro exI [of _ ?cs] conjI) simp_all
    moreover have "\<forall>i < length (enqueued (createStreamingResponse consumer m messages w)).
              frame_has_type Thinking (enqueued (createStreamingResponse consumer m messages w) ! i)
                \<longrightarrow> 0 < i
                    \<and> frame_has_type Content
                        (enqueued (createStreamingResponse consumer m messages w) ! (i - 1))"
      using thinking_frames_placed [OF loop, of consumer ?t] by (simp only: frames)
    ultimately show ?thesis by (rule conjI)
  qed
  have plain': "invoke m (convertToLangChainMessages m messages) = Inr response
      \<and> (tool_calls response = None \<or> tool_calls response = Some []) \<longrightarrow>
        (\<exists>cs. enqueued (createStreamingResponse consumer m messages w)
                = take_frames consumer (map data_frame cs @ closing_frames ?t)
             \<and> cs = ?cs
             \<and> (\<forall>i < length cs. type (cs ! i) = Thinking \<longrightarrow>
                   0 < i \<and> type (cs ! (i - 1)) = Content))
        \<and> (\<forall>i < length (enqueued (createStreamingResponse consumer m messages w)).
              frame_has_type Thinking (enqueued (createStreamingResponse consumer m messages w) ! i)
                \<longrightarrow> 0 < i
                    \<and> frame_has_type Content
                        (enqueued (createStreamingResponse consumer m messages w) ! (i - 1)))"
    by (intro impI, elim conjE, rule plain) assumption+
  show ?thesis
    by (intro conjI) (fact silent shape chat plain')+
qed

subsection \<open>Concrete runs of the chat model\<close>

lemmas example_defs =
  example_fragment_def example_silent_fragment_def example_time_tool_def
  example_failing_tool_def example_call_def example_calls_def example_response_def
  example_model_def

lemmas frame_defs =
  data_frame_def sse_def JSON_stringify_def DONE_frame_def QuoteJSONString_def type_name_def
  content_chunk_def thinking_chunk_def error_chunk_def is_high_surrogate_def
  is_low_surrogate_def closing_frames_def ascii_def

lemma example_lookups:
  "build_toolMap (getTools a b) (ascii ''get_current_time'') = Some a"
  "build_toolMap (getTools a b) (ascii ''get_current_timestamp'') = Some b"
  "build_toolMap (getTools a b) (ascii ''nope'') = None"
  by (simp_all add: build_toolMap_def getTools_def ascii_def)

lemma example_tool_messages:
  "executeToolCalls (build_toolMap (getTools example_time_tool example_failing_tool))
     example_calls (0::nat)
   = (Inr [\<lparr>tool_content = ascii ''12:00'', tool_call_id = JStr (ascii ''a'')\<rparr>,
           \<lparr>tool_content = ascii ''Error: boom'', tool_call_id = JStr (ascii ''b'')\<rparr>], 0)"
  by (simp add: example_calls_def example_call_def example_lookups example_time_tool_def
        example_failing_tool_def)
     (simp add: ascii_def)

lemma example_frames:
  "data_frame (content_chunk (ascii ''ok''))
     = ascii ''data: {\"type\":\"content\",\"content\":\"ok\"}'' @ [0x0A, 0x0A]"
  "data_frame (thinking_chunk (JStr (ascii ''why'')))
     = ascii ''data: {\"type\":\"thinking\",\"content\":\"why\"}'' @ [0x0A, 0x0A]"
  "DONE_frame = ascii ''data: [DONE]'' @ [0x0A, 0x0A]"
  "data_frame (error_chunk (ascii ''Error: boom''))
     = ascii ''data: {\"type\":\"error\",\"error\":\"Error: boom\"}'' @ [0x0A, 0x0A]"
  "data_frame (error_chunk (ascii ''TypeError: Cannot convert object to primitive value''))
     = ascii ''data: {\"type\":\"error\",\"error\":\"TypeError: Cannot convert object to primitive value\"}''
       @ [0x0A, 0x0A]"
  by (simp_all add: frame_defs)

lemma example_conversions:
  "String_error (ErrorObject (ascii ''Error'') (ascii ''boom'')) = Some (ascii ''Error: boom'')"
  "String_error cannot_convert
     = Some (ascii ''TypeError: Cannot convert object to primitive value'')"
  "error_message_or_String bare_object = None"
  "String_error bare_object = None"
  by (simp_all add: cannot_convert_def TypeError_def bare_object_def ascii_def)

lemma example_bodies:
  "streamChat_body example_silent_fragment = []"
  "streamChat_body example_fragment
     = [content_chunk (ascii ''ok''), thinking_chunk (JStr (ascii ''why''))]"
  by (simp_all add: example_fragment_def example_silent_fragment_def streamChat_body_def
        js_or_def ascii_def)

lemma chunk_types:
  "type (content_chunk s) = Content"
  "type (thinking_chunk v) = Thinking"
  "type (error_chunk e) = Error"
  by (simp_all add: content_chunk_def thinking_chunk_def error_chunk_def)

lemma example_invoke:
  "invoke (example_model calls t) h = Inr (example_response calls)"
  "stream (example_model calls t) h
     = \<lparr>fragments = [example_silent_fragment, example_fragment], failure = t\<rparr>"
  "toolMap (example_model calls t) = build_toolMap (getTools example_time_tool example_failing_tool)"
  "systemPrompt (example_model calls t) = ascii ''sys''"
  "tool_calls (example_response calls) = Some calls"
  by (simp_all add: example_model_def example_response_def)


lemma example_calls_not_Nil: "example_calls \<noteq> []"
  by (simp add: example_calls_def)

text \<open>
  A consumer that cancels once the two frames of the only fragment are enqueued, on a
  stream that ends normally: the \<open>enqueue\<close> of the sentinel throws, the \<open>enqueue\<close>
  of the \<open>catch\<close> throws again, and \<open>start\<close> rejects. Something was thrown, no
  \<open>error\<close> chunk was sent, and the code did not close the stream.
\<close>

theorem cancelled_stream_counterexample:
  "createStreamingResponse (Some 2) (example_model [] None) [] (0::nat)
     = \<lparr>enqueued = [ascii ''data: {\"type\":\"content\",\"content\":\"ok\"}'' @ [0x0A, 0x0A],
                    ascii ''data: {\"type\":\"thinking\",\"content\":\"why\"}'' @ [0x0A, 0x0A]],
        closed = False, rejected = Some controller_closed, cancel_after = Some 2\<rparr>
   \<and> DONE_frame \<notin> set (enqueued (createStreamingResponse (Some 2) (example_model [] None) [] (0::nat)))
   \<and> filter (frame_has_type Error)
        (enqueued (createStreamingResponse (Some 2) (example_model [] None) [] (0::nat))) = []"
proof -
  have run: "createStreamingResponse (Some 2) (example_model [] None) [] (0::nat)
     = \<lparr>enqueued = [data_frame (content_chunk (ascii ''ok'')),
                    data_frame (thinking_chunk (JStr (ascii ''why'')))],
        closed = False, rejected = Some controller_closed, cancel_after = Some 2\<rparr>"
    by (simp add: createStreamingResponse_plain_branch [of _ _ "example_response []"]
          example_invoke example_bodies settled_def take_frames_def reads_on_def
          closing_frames_def)
  have sentinel: "DONE_frame
      \<notin> set (enqueued (createStreamingResponse (Some 2) (example_model [] None) [] (0::nat)))"
    by (simp add: run data_frame_not_DONE [symmetric])
  have errors: "filter (frame_has_type Error)
        (enqueued (createStreamingResponse (Some 2) (example_model [] None) [] (0::nat))) = []"
    by (simp add: run frame_has_type_data_frame chunk_types)
  from run have "createStreamingResponse (Some 2) (example_model [] None) [] (0::nat)
     = \<lparr>enqueued = [ascii ''data: {\"type\":\"content\",\"content\":\"ok\"}'' @ [0x0A, 0x0A],
                    ascii ''data: {\"type\":\"thinking\",\"content\":\"why\"}'' @ [0x0A, 0x0A]],
        closed = False, rejected = Some controller_closed, cancel_after = Some 2\<rparr>"
    by (simp only: example_frames)
  with sentinel errors show ?thesis by (intro conjI)
qed


text \<open>
  A stream without tool calls that ends normally, read to the end and cancelled after
  its first frame; a stream after tool calls that fails with \<open>Error: boom\<close>; a model
  whose \<open>invoke\<close> throws.
\<close>

theorem createStreamingResponse_framing_witness:
  "createStreamingResponse None (example_model [] None) [] (0::nat)
     = \<lparr>enqueued = [ascii ''data: {\"type\":\"content\",\"content\":\"ok\"}'' @ [0x0A, 0x0A],
                    ascii ''data: {\"type\":\"thinking\",\"content\":\"why\"}'' @ [0x0A, 0x0A],
                    ascii ''data: [DONE]'' @ [0x0A, 0x0A]],
        closed = True, rejected = None, cancel_after = None\<rparr>
   \<and> createStreamingResponse (Some 1) (example_model [] None) [] (0::nat)
     = \<lparr>enqueued = [ascii ''data: {\"type\":\"content\",\"content\":\"ok\"}'' @ [0x0A, 0x0A]],
        closed = False, rejected = Some controller_closed, cancel_after = Some 1\<rparr>
   \<and> createStreamingResponse None
        (example_model example_calls (Some (ErrorObject (ascii ''Error'') (ascii ''boom'')))) [] (0::nat)
     = \<lparr>enqueued = [ascii ''data: {\"type\":\"content\",\"content\":\"ok\"}'' @ [0x0A, 0x0A],
                    ascii ''data: {\"type\":\"error\",\"error\":\"Error: boom\"}'' @ [0x0A, 0x0A]],
        closed = True, rejected = None, cancel_after = None\<rparr>
   \<and> createStreamingResponse None
        ((example_model [] None)\<lparr>invoke := (\<lambda>h. Inl (ErrorObject (ascii ''Error'') (ascii ''boom'')))\<rparr>)
        [] (0::nat)
     = \<lparr>enqueued = [ascii ''data: {\"type\":\"error\",\"error\":\"Error: boom\"}'' @ [0x0A, 0x0A]],
        closed = True, rejected = None, cancel_after = None\<rparr>"
proof -
  let ?boom = "ErrorObject (ascii ''Error'') (ascii ''boom'')"
  let ?content = "data_frame (content_chunk (ascii ''ok''))"
  let ?thinking = "data_frame (thinking_chunk (JStr (ascii ''why'')))"
  let ?error = "data_frame (error_chunk (ascii ''Error: boom''))"
  let ?p = "example_model [] None"
  let ?t = "example_model example_calls (Some ?boom)"
  let ?f = "(example_model [] None)\<lparr>invoke := (\<lambda>h. Inl ?boom)\<rparr>"
  have closing: "closing_frames None = [DONE_frame]" "closing_frames (Some ?boom) = [?error]"
    by (simp_all add: closing_frames_def example_conversions del: String_error.simps)
  have converts: "String_error ?boom \<noteq> None"
    by (simp add: example_conversions del: String_error.simps)
  have plain: "createStreamingResponse None ?p [] (0::nat)
        = \<lparr>enqueued = [?content, ?thinking, DONE_frame],
           closed = True, rejected = None, cancel_after = None\<rparr>
      \<and> createStreamingResponse (Some 1) ?p [] (0::nat)
        = \<lparr>enqueued = [?content],
           closed = False, rejected = Some controller_closed, cancel_after = Some 1\<rparr>"
    using createStreamingResponse_framing [of ?p "[]" "0::nat"]
    by (elim exE conjE disjE)
       (auto simp: example_invoke example_bodies closing simp del: String_error.simps)
  have tools: "createStreamingResponse None ?t [] (0::nat)
        = \<lparr>enqueued = [?content, ?error],
           closed = True, rejected = None, cancel_after = None\<rparr>"
    using createStreamingResponse_framing [of ?t "[]" "0::nat"]
    by (elim exE conjE disjE)
       (auto simp: example_invoke example_bodies example_tool_messages example_calls_not_Nil
          chunk_types closing converts simp del: String_error.simps)
  have fails: "createStreamingResponse None ?f [] (0::nat)
        = \<lparr>enqueued = [?error],
           closed = True, rejected = None, cancel_after = None\<rparr>"
    using createStreamingResponse_framing [of ?f "[]" "0::nat"]
    by (elim exE conjE disjE)
       (auto simp: closing converts simp del: String_error.simps)
  from plain tools fails show ?thesis
    by (simp only: example_frames)
qed

theorem second_pass_content_only_witness:
  "invoke (example_model example_calls None) (convertToLangChainMessages (example_model example_calls None) [])
      = Inr (example_response example_calls)
   \<and> tool_calls (example_response example_calls) = Some example_calls
   \<and> example_calls \<noteq> []
   \<and> enqueued (createStreamingResponse None (example_model example_calls None) [] (0::nat))
       = [ascii ''data: {\"type\":\"content\",\"content\":\"ok\"}'' @ [0x0A, 0x0A],
          ascii ''data: [DONE]'' @ [0x0A, 0x0A]]
   \<and> list_all (\<lambda>f. \<not> frame_has_type Thinking f)
        (enqueued (createStreamingResponse None (example_model example_calls None) [] (0::nat)))
   \<and> invoke (example_model [] None) (convertToLangChainMessages (example_model [] None) [])
      = Inr (example_response [])
   \<and> tool_calls (example_response []) = Some []
   \<and> enqueued (createStreamingResponse None (example_model [] None) [] (0::nat))
       = [ascii ''data: {\"type\":\"content\",\"content\":\"ok\"}'' @ [0x0A, 0x0A],
          ascii ''data: {\"type\":\"thinking\",\"content\":\"why\"}'' @ [0x0A, 0x0A],
          ascii ''data: [DONE]'' @ [0x0A, 0x0A]]
   \<and> enqueued (createStreamingResponse (Some 1) (example_model [] None) [] (0::nat))
       = [ascii ''data: {\"type\":\"content\",\"content\":\"ok\"}'' @ [0x0A, 0x0A]]"
proof -
  let ?m = "example_model example_calls None"
  let ?p = "example_model [] None"
  have closing: "closing_frames None = [DONE_frame]"
    by (simp add: closing_frames_def)
  have asked: "invoke ?m (convertToLangChainMessages ?m []) = Inr (example_response example_calls)"
    "tool_calls (example_response example_calls) = Some example_calls"
    "example_calls \<noteq> []"
    by (simp_all add: example_invoke example_calls_not_Nil)
  have plain: "invoke ?p (convertToLangChainMessages ?p []) = Inr (example_response [])"
    "tool_calls (example_response []) = Some []"
    by (simp_all add: example_invoke)
  have results: "executeToolCalls (toolMap ?m) example_calls (0::nat)
      = (Inr [\<lparr>tool_content = ascii ''12:00'', tool_call_id = JStr (ascii ''a'')\<rparr>,
              \<lparr>tool_content = ascii ''Error: boom'', tool_call_id = JStr (ascii ''b'')\<rparr>], 0)"
    by (simp only: example_invoke example_tool_messages)
  note tool_inst = second_pass_content_only
      [where m = ?m and messages = "[]" and response = "example_response example_calls"
         and calls = example_calls and consumer = None and w = "0::nat" and fr = example_fragment]
  have quiet: "list_all (\<lambda>f. \<not> frame_has_type Thinking f)
        (enqueued (createStreamingResponse None ?m [] (0::nat)))"
    using tool_inst asked by blast
  have tools_run: "enqueued (createStreamingResponse None ?m [] (0::nat))
       = [data_frame (content_chunk (ascii ''ok'')), DONE_frame]"
  proof -
    from tool_inst asked results
    have "enqueued (createStreamingResponse None ?m [] (0::nat))
        = take_frames None
            (map data_frame (filter (\<lambda>ch. type ch = Content)
               (streamChat_loop (fragments (stream ?m
                  (second_history ?m [] (example_response example_calls)
                     [\<lparr>tool_content = ascii ''12:00'', tool_call_id = JStr (ascii ''a'')\<rparr>,
                      \<lparr>tool_content = ascii ''Error: boom'', tool_call_id = JStr (ascii ''b'')\<rparr>])))))
             @ closing_frames (failure (stream ?m
                  (second_history ?m [] (example_response example_calls)
                     [\<lparr>tool_content = ascii ''12:00'', tool_call_id = JStr (ascii ''a'')\<rparr>,
                      \<lparr>tool_content = ascii ''Error: boom'', tool_call_id = JStr (ascii ''b'')\<rparr>]))))"
      by blast
    then show ?thesis
      by (simp add: example_invoke example_bodies chunk_types closing take_frames_def)
  qed
  have plain_run: "enqueued (createStreamingResponse consumer ?p [] (0::nat))
       = take_frames consumer
           [data_frame (content_chunk (ascii ''ok'')),
            data_frame (thinking_chunk (JStr (ascii ''why''))), DONE_frame]" for consumer
  proof -
    from second_pass_content_only
      [where m = ?p and messages = "[]" and response = "example_response []"
         and consumer = consumer and w = "0::nat" and fr = example_fragment] plain
    have "enqueued (createStreamingResponse consumer ?p [] (0::nat))
        = take_frames consumer
            (map data_frame
               (streamChat_loop (fragments (stream ?p (convertToLangChainMessages ?p []))))
             @ closing_frames (failure (stream ?p (convertToLangChainMessages ?p []))))"
      by blast
    then show ?thesis
      by (simp add: example_invoke example_bodies closing)
  qed
  have whole: "enqueued (createStreamingResponse None ?p [] (0::nat))
       = [data_frame (content_chunk (ascii ''ok'')),
          data_frame (thinking_chunk (JStr (ascii ''why''))), DONE_frame]"
    by (simp add: plain_run take_frames_def)
  have cut: "enqueued (createStreamingResponse (Some 1) ?p [] (0::nat))
       = [data_frame (content_chunk (ascii ''ok''))]"
    by (simp add: plain_run take_frames_def)
  from asked plain quiet tools_run whole cut show ?thesis
    by (simp only: example_frames) simp
qed

theorem thinking_only_after_content_witness:
  "fragment_content example_silent_fragment = JStr []
   \<and> truthy (reasoning_content example_silent_fragment)
   \<and> streamChat_body example_silent_fragment = []
   \<and> forward_body example_silent_fragment (new_controller None) = (new_controller None, None)
   \<and> streamChat (example_model [] None) []
       = [content_chunk (ascii ''ok''), thinking_chunk (JStr (ascii ''why''))]
   \<and> type (streamChat (example_model [] None) [] ! 1) = Thinking
   \<and> type (streamChat (example_model [] None) [] ! (1 - 1)) = Content
   \<and> tool_calls (example_response []) = Some []
   \<and> enqueued (createStreamingResponse None (example_model [] None) [] (0::nat))
       = [data_frame (content_chunk (ascii ''ok'')),
          data_frame (thinking_chunk (JStr (ascii ''why''))), DONE_frame]
   \<and> frame_has_type Thinking
        (enqueued (createStreamingResponse None (example_model [] None) [] (0::nat)) ! 1)
   \<and> frame_has_type Content
        (enqueued (createStreamingResponse None (example_model [] None) [] (0::nat)) ! (1 - 1))"
proof -
  let ?p = "example_model [] None"
  let ?frames = "enqueued (createStreamingResponse None ?p [] (0::nat))"
  note inst = thinking_only_after_content
      [where fr = example_silent_fragment and c = "new_controller None" and m = ?p
         and messages = "[]" and response = "example_response []" and consumer = None
         and w = "0::nat"]
  have silent: "fragment_content example_silent_fragment = JStr []"
    "truthy (reasoning_content example_silent_fragment)"
    by (simp_all add: example_silent_fragment_def ascii_def)
  have quiet: "streamChat_body example_silent_fragment = []
      \<and> forward_body example_silent_fragment (new_controller None) = (new_controller None, None)"
    using inst silent by simp
  have chat: "streamChat ?p [] = [content_chunk (ascii ''ok''), thinking_chunk (JStr (ascii ''why''))]"
    by (simp add: streamChat_def example_invoke example_bodies)
  have second: "type (streamChat ?p [] ! 1) = Thinking"
    by (simp add: chat chunk_types)
  have first: "type (streamChat ?p [] ! (1 - 1)) = Content"
  proof -
    from inst have "\<forall>i < length (streamChat ?p []).
        type (streamChat ?p [] ! i) = Thinking \<longrightarrow>
          0 < i \<and> type (streamChat ?p [] ! (i - 1)) = Content"
      by blast
    moreover have "1 < length (streamChat ?p [])" by (simp add: chat)
    ultimately show ?thesis using second by blast
  qed
  have plain: "invoke ?p (convertToLangChainMessages ?p []) = Inr (example_response [])
      \<and> (tool_calls (example_response []) = None \<or> tool_calls (example_response []) = Some [])"
    by (simp add: example_invoke)
  have frames: "?frames = [data_frame (content_chunk (ascii ''ok'')),
          data_frame (thinking_chunk (JStr (ascii ''why''))), DONE_frame]"
  proof -
    from inst plain
    have "\<exists>cs. ?frames
                = take_frames None
                    (map data_frame cs
                     @ closing_frames (failure (stream ?p (convertToLangChainMessages ?p []))))
             \<and> cs = streamChat_loop (fragments (stream ?p (convertToLangChainMessages ?p [])))
             \<and> (\<forall>i < length cs. type (cs ! i) = Thinking \<longrightarrow>
                   0 < i \<and> type (cs ! (i - 1)) = Content)"
      by blast
    then show ?thesis
      by (auto simp: example_invoke example_bodies closing_frames_def take_frames_def)
  qed
  have thinking: "frame_has_type Thinking (?frames ! 1)"
    by (simp add: frames frame_has_type_data_frame chunk_types)
  have content: "frame_has_type Content (?frames ! (1 - 1))"
  proof -
    from inst plain
    have "\<forall>i < length ?frames. frame_has_type Thinking (?frames ! i)
            \<longrightarrow> 0 < i \<and> frame_has_type Content (?frames ! (i - 1))"
      by blast
    moreover have "1 < length ?frames" by (simp add: frames)
    ultimately show ?thesis using thinking by blast
  qed
  have no_tools: "tool_calls (example_response []) = Some []"
    by (simp add: example_invoke)
  from quiet have quiet1: "streamChat_body example_silent_fragment = []"
    and quiet2: "forward_body example_silent_fragment (new_controller None) = (new_controller None, None)"
    by simp_all
  show ?thesis
    by (intro conjI) (fact silent quiet1 quiet2 chat second first no_tools frames thinking content)+
qed

subsection \<open>The RAG-augmented model\<close>






lemma example_history_last:
  "example_history \<noteq> []"
  "last example_history = \<lparr>role = user, content = ascii ''hi''\<rparr>"
  "butlast example_history = [\<lparr>role = assistant, content = ascii ''hello''\<rparr>]"
  by (simp_all add: example_history_def)

lemma example_enhanced:
  "enhanceMessageWithRAG example_backend example_options (ascii ''hi'')
     = Inr (buildRAGPrompt (ascii ''hi'') [\<lparr>doc_content = ascii ''x'', doc_metadata = []\<rparr>])"
  by (simp add: enhanceMessageWithRAG_def searchSimilarDocuments_def example_backend_def
        convert_results_def first_or_empty_def upt_rec [of 0] upt_rec [of 1] upt_rec [of "Suc 0"])
     (simp add: ascii_def)

lemma example_should: "shouldUseRAG example_options M"
  by (simp add: shouldUseRAG_def example_options_def)


text \<open>
  C8. When the history ends with a user turn for which \<open>shouldUseRAG\<close> holds and
  \<open>enhanceMessageWithRAG\<close> returns, both methods call the parent on the history whose
  last turn is a user turn with the enhanced content and whose earlier turns are those
  of the input, in order. When the history is empty, ends with another role, or
  \<open>shouldUseRAG\<close> fails, the parent gets the input history.
\<close>

theorem rewritten_history:
  "(messages \<noteq> [] \<and> role (last messages) = user
      \<and> shouldUseRAG ragOptions (content (last messages))
      \<and> enhanceMessageWithRAG b ragOptions (content (last messages)) = Inr enhanced \<longrightarrow>
      (\<exists>H. H = butlast messages @ [\<lparr>role = user, content = enhanced\<rparr>]
        \<and> RAGModel_streamChat parent b ragOptions messages = Inr (parent H)
        \<and> RAGModel_createStreamingResponse parent' b ragOptions messages = Inr (parent' H)
        \<and> length H = length messages
        \<and> take (length messages - 1) H = take (length messages - 1) messages
        \<and> role (last H) = user \<and> content (last H) = enhanced))
   \<and> (messages = [] \<or> role (last messages) \<noteq> user
      \<or> \<not> shouldUseRAG ragOptions (content (last messages)) \<longrightarrow>
        RAGModel_streamChat parent b ragOptions messages = Inr (parent messages)
        \<and> RAGModel_createStreamingResponse parent' b ragOptions messages = Inr (parent' messages))"
proof -
  have rewritten: "\<exists>H. H = butlast messages @ [\<lparr>role = user, content = enhanced\<rparr>]
        \<and> RAGModel_streamChat parent b ragOptions messages = Inr (parent H)
        \<and> RAGModel_createStreamingResponse parent' b ragOptions messages = Inr (parent' H)
        \<and> length H = length messages
        \<and> take (length messages - 1) H = take (length messages - 1) messages
        \<and> role (last H) = user \<and> content (last H) = enhanced"
    if "messages \<noteq> []" "role (last messages) = user"
      "shouldUseRAG ragOptions (content (last messages))"
      "enhanceMessageWithRAG b ragOptions (content (last messages)) = Inr enhanced"
  proof -
    have "take (length messages - 1) (butlast messages @ [\<lparr>role = user, content = enhanced\<rparr>])
        = take (length messages - 1) messages"
      by (simp add: butlast_conv_take)
    with that show ?thesis
      by (simp add: RAGModel_streamChat_def RAGModel_createStreamingResponse_def lastMessage_def)
  qed
  have untouched: "RAGModel_streamChat parent b ragOptions messages = Inr (parent messages)
        \<and> RAGModel_createStreamingResponse parent' b ragOptions messages = Inr (parent' messages)"
    if "messages = [] \<or> role (last messages) \<noteq> user
      \<or> \<not> shouldUseRAG ragOptions (content (last messages))"
    using that
    by (auto simp: RAGModel_streamChat_def RAGModel_createStreamingResponse_def lastMessage_def)
  from rewritten untouched show ?thesis by blast
qed

theorem rewritten_history_witness:
  "example_history \<noteq> []
   \<and> role (last example_history) = user
   \<and> shouldUseRAG example_options (content (last example_history))
   \<and> enhanceMessageWithRAG example_backend example_options (content (last example_history))
       = Inr (buildRAGPrompt (ascii ''hi'') [\<lparr>doc_content = ascii ''x'', doc_metadata = []\<rparr>])
   \<and> RAGModel_streamChat (\<lambda>h. h) example_backend example_options example_history
       = Inr [\<lparr>role = assistant, content = ascii ''hello''\<rparr>,
              \<lparr>role = user,
               content = buildRAGPrompt (ascii ''hi'') [\<lparr>doc_content = ascii ''x'', doc_metadata = []\<rparr>]\<rparr>]
   \<and> RAGModel_createStreamingResponse (\<lambda>h. h) example_backend example_options
        [\<lparr>role = user, content = ascii ''hi''\<rparr>, \<lparr>role = assistant, content = ascii ''hello''\<rparr>]
       = Inr [\<lparr>role = user, content = ascii ''hi''\<rparr>, \<lparr>role = assistant, content = ascii ''hello''\<rparr>]"
proof -
  let ?enhanced = "buildRAGPrompt (ascii ''hi'') [\<lparr>doc_content = ascii ''x'', doc_metadata = []\<rparr>]"
  have hyps: "example_history \<noteq> []" "role (last example_history) = user"
    "shouldUseRAG example_options (content (last example_history))"
    "enhanceMessageWithRAG example_backend example_options (content (last example_history))
       = Inr ?enhanced"
    by (simp_all add: example_history_last example_should example_enhanced)
  from rewritten_history
    [where messages = example_history and ragOptions = example_options and b = example_backend
       and enhanced = ?enhanced and parent = "\<lambda>h. h" and parent' = "\<lambda>h. h"] hyps
  obtain H where
    H: "H = butlast example_history @ [\<lparr>role = user, content = ?enhanced\<rparr>]"
    and r: "RAGModel_streamChat (\<lambda>h. h) example_backend example_options example_history = Inr H"
    by blast
  from H r have rewritten:
    "RAGModel_streamChat (\<lambda>h. h) example_backend example_options example_history
       = Inr [\<lparr>role = assistant, content = ascii ''hello''\<rparr>,
              \<lparr>role = user, content = ?enhanced\<rparr>]"
    by (simp add: example_history_last)
  let ?other = "[\<lparr>role = user, content = ascii ''hi''\<rparr>, \<lparr>role = assistant, content = ascii ''hello''\<rparr>]"
  have "?other = [] \<or> role (last ?other) \<noteq> user
      \<or> \<not> shouldUseRAG example_options (content (last ?other))"
    by simp
  with rewritten_history
    [where messages = ?other and ragOptions = example_options and b = example_backend
       and parent = "\<lambda>h. h" and parent' = "\<lambda>h. h"]
  have untouched: "RAGModel_createStreamingResponse (\<lambda>h. h) example_backend example_options ?other
      = Inr ?other"
    by blast
  show ?thesis
    by (intro conjI) (fact hyps rewritten untouched)+
qed

subsection \<open>The generated record ids\<close>








end
